theory Spec2Isabelle
  imports Complex_Main
begin

section \<open>Data model of the session layer\<close>

text \<open>
  The session of the driver (\<open>sessionWithContext\<close>) is embedded with explicit state
  passing. The router, the connection pool and the connections are Go interfaces whose
  implementations are outside the embedded code: they are parameters (the record
  \<open>env\<close>) that act on an external state of arbitrary type \<open>'x\<close>; the fields
  \<open>pool\<close>, \<open>router\<close>, \<open>sleep\<close> and \<open>now\<close> of the session are part of it. Every
  call the session makes on them is appended to a log, so that theorems can speak about
  which calls were made and with which arguments. Logging to \<open>log.Logger\<close> has no effect
  on the session and is left out. The values of transaction metadata and of query
  parameters, which the session only passes on, are strings.
\<close>

text \<open>Errors are values. \<open>OtherError\<close> is any error produced by a collaborator or by
  the user's work function (database, pool, connectivity errors).\<close>

datatype error =
    UsageError string
  | TransactionExecutionLimit "error list" "string list"
  | OtherError string

text \<open>\<open>time.Duration\<close> and points in time are integers (nanoseconds). Only comparisons
  and additions far from the bounds of \<open>int64\<close> are made on them.\<close>

type_synonym Duration = int

text \<open>\<open>math.MinInt\<close> on a 64-bit platform.\<close>

definition MinInt :: int where
  "MinInt = - (2 ^ 63)"

text \<open>A \<open>context.Context\<close> is reduced to its deadline (an absolute time), if any.\<close>

record Context =
  deadline :: "int option"

text \<open>\<open>context.WithTimeout\<close> of the Go library: the deadline is \<open>now + d\<close>, unless the
  parent already ends earlier.\<close>

definition WithTimeout :: "int \<Rightarrow> Context \<Rightarrow> Duration \<Rightarrow> Context" where
  "WithTimeout now ctx d =
     (case deadline ctx of
        None \<Rightarrow> ctx\<lparr>deadline := Some (now + d)\<rparr>
      | Some p \<Rightarrow> ctx\<lparr>deadline := Some (min p (now + d))\<rparr>)"

datatype AccessMode = WriteMode | ReadMode

type_synonym conn = nat

record TransactionConfig =
  Timeout :: Duration
  Metadata :: "(string \<times> string) list"

record Config =
  cfg_FetchSize :: int
  cfg_MaxTransactionRetryTime :: Duration
  cfg_MaxConnectionPoolSize :: int
  cfg_ConnectionAcquisitionTimeout :: Duration

record SessionConfig =
  sc_AccessMode :: AccessMode
  sc_Bookmarks :: "string list"
  sc_DatabaseName :: string
  sc_FetchSize :: int
  sc_ImpersonatedUser :: string

text \<open>\<open>idb.TxConfig\<close> and \<open>idb.Command\<close>, the arguments of the calls on a connection.\<close>

record TxConfig =
  tx_Mode :: AccessMode
  tx_Bookmarks :: "string list"
  tx_Timeout :: Duration
  tx_Meta :: "(string \<times> string) list"
  tx_ImpersonatedUser :: string

record Command =
  cmd_Cypher :: string
  cmd_Params :: "(string \<times> string) list"
  cmd_FetchSize :: int

record explicitTransaction =
  et_conn :: conn
  et_fetchSize :: int
  et_txHandle :: nat

record managedTransaction =
  mt_conn :: conn
  mt_fetchSize :: int
  mt_txHandle :: nat

record resultWithContext =
  res_conn :: conn
  res_stream :: nat
  res_cypher :: string
  res_params :: "(string \<times> string) list"

record autocommitTransaction =
  at_conn :: conn
  at_res :: resultWithContext

record ServerInfo =
  si_address :: string
  si_agent :: string
  si_protocolVersion :: "nat \<times> nat"

record sessionWithContext =
  config :: Config
  defaultMode :: AccessMode
  bookmarks :: "string list"
  databaseName :: string
  impersonatedUser :: string
  resolveHomeDb :: bool
  explicitTx :: "explicitTransaction option"
  autocommitTx :: "autocommitTransaction option"
  throttleTime :: Duration
  fetchSize :: int

definition FetchDefault :: int where
  "FetchDefault = 0"

subsection \<open>The collaborators and the log of calls\<close>

datatype call =
    CGetNameOfDefaultDatabase Context "string list" string "error + string"
  | CReaders Context "string list" string
  | CWriters Context "string list" string
  | CInvalidateReader string string
  | CInvalidateWriter string string
  | CBorrow Context "string list" bool Duration
  | CReturn conn
  | CSelectDatabase conn string
  | CTxBegin conn TxConfig
  | CTxCommit conn nat
  | CRun conn Command TxConfig
  | CConsume conn nat
  | CSleep Duration
  | COnFailure error bool

record 'x env =
  e_GetNameOfDefaultDatabase :: "Context \<Rightarrow> string list \<Rightarrow> string \<Rightarrow> 'x \<Rightarrow> (error + string) \<times> 'x"
  e_Readers :: "Context \<Rightarrow> string list \<Rightarrow> string \<Rightarrow> 'x \<Rightarrow> (error + string list) \<times> 'x"
  e_Writers :: "Context \<Rightarrow> string list \<Rightarrow> string \<Rightarrow> 'x \<Rightarrow> (error + string list) \<times> 'x"
  e_InvalidateReader :: "string \<Rightarrow> string \<Rightarrow> 'x \<Rightarrow> error option \<times> 'x"
  e_InvalidateWriter :: "string \<Rightarrow> string \<Rightarrow> 'x \<Rightarrow> error option \<times> 'x"
  e_Borrow :: "Context \<Rightarrow> string list \<Rightarrow> bool \<Rightarrow> Duration \<Rightarrow> 'x \<Rightarrow> (error + conn) \<times> 'x"
  e_Return :: "conn \<Rightarrow> 'x \<Rightarrow> 'x"
  e_isDatabaseSelector :: "conn \<Rightarrow> bool"
  e_SelectDatabase :: "conn \<Rightarrow> string \<Rightarrow> 'x \<Rightarrow> 'x"
  e_TxBegin :: "conn \<Rightarrow> TxConfig \<Rightarrow> 'x \<Rightarrow> (error + nat) \<times> 'x"
  e_TxCommit :: "conn \<Rightarrow> nat \<Rightarrow> 'x \<Rightarrow> error option \<times> 'x"
  e_Run :: "conn \<Rightarrow> Command \<Rightarrow> TxConfig \<Rightarrow> 'x \<Rightarrow> (error + nat) \<times> 'x"
  e_Consume :: "conn \<Rightarrow> nat \<Rightarrow> 'x \<Rightarrow> 'x"
  e_Bookmark :: "conn \<Rightarrow> 'x \<Rightarrow> string"
  e_IsAlive :: "conn \<Rightarrow> 'x \<Rightarrow> bool"
  e_ServerName :: "conn \<Rightarrow> string"
  e_ServerVersion :: "conn \<Rightarrow> string"
  e_Version :: "conn \<Rightarrow> nat \<times> nat"
  e_wrapError :: "error \<Rightarrow> error"
  e_now :: "'x \<Rightarrow> int"
  e_sleep :: "Duration \<Rightarrow> 'x \<Rightarrow> 'x"
  e_isRetryable :: "error \<Rightarrow> bool"
  e_inferCause :: "error \<Rightarrow> string option"
  e_DefaultLivenessCheckThreshold :: Duration

record 'x world =
  ext :: 'x
  calls :: "call list"

definition logged :: "call \<Rightarrow> ('x \<Rightarrow> 'r \<times> 'x) \<Rightarrow> 'x world \<Rightarrow> 'r \<times> 'x world" where
  "logged c f w = (case f (ext w) of (r, x) \<Rightarrow> (r, \<lparr>ext = x, calls = calls w @ [c]\<rparr>))"

definition logged_unit :: "call \<Rightarrow> ('x \<Rightarrow> 'x) \<Rightarrow> 'x world \<Rightarrow> 'x world" where
  "logged_unit c f w = \<lparr>ext = f (ext w), calls = calls w @ [c]\<rparr>"

definition router_GetNameOfDefaultDatabase ::
  "'x env \<Rightarrow> Context \<Rightarrow> string list \<Rightarrow> string \<Rightarrow> 'x world \<Rightarrow> (error + string) \<times> 'x world" where
  "router_GetNameOfDefaultDatabase env ctx bms user w =
     (case e_GetNameOfDefaultDatabase env ctx bms user (ext w) of
        (r, x) \<Rightarrow> (r, \<lparr>ext = x, calls = calls w @ [CGetNameOfDefaultDatabase ctx bms user r]\<rparr>))"

definition router_Readers ::
  "'x env \<Rightarrow> Context \<Rightarrow> string list \<Rightarrow> string \<Rightarrow> 'x world \<Rightarrow> (error + string list) \<times> 'x world" where
  "router_Readers env ctx bms db = logged (CReaders ctx bms db) (e_Readers env ctx bms db)"

definition router_Writers ::
  "'x env \<Rightarrow> Context \<Rightarrow> string list \<Rightarrow> string \<Rightarrow> 'x world \<Rightarrow> (error + string list) \<times> 'x world" where
  "router_Writers env ctx bms db = logged (CWriters ctx bms db) (e_Writers env ctx bms db)"

definition router_InvalidateReader ::
  "'x env \<Rightarrow> string \<Rightarrow> string \<Rightarrow> 'x world \<Rightarrow> error option \<times> 'x world" where
  "router_InvalidateReader env db server = logged (CInvalidateReader db server) (e_InvalidateReader env db server)"

definition router_InvalidateWriter ::
  "'x env \<Rightarrow> string \<Rightarrow> string \<Rightarrow> 'x world \<Rightarrow> error option \<times> 'x world" where
  "router_InvalidateWriter env db server = logged (CInvalidateWriter db server) (e_InvalidateWriter env db server)"

definition pool_Borrow ::
  "'x env \<Rightarrow> Context \<Rightarrow> string list \<Rightarrow> bool \<Rightarrow> Duration \<Rightarrow> 'x world \<Rightarrow> (error + conn) \<times> 'x world" where
  "pool_Borrow env ctx servers wait thr = logged (CBorrow ctx servers wait thr) (e_Borrow env ctx servers wait thr)"

definition pool_Return :: "'x env \<Rightarrow> conn \<Rightarrow> 'x world \<Rightarrow> 'x world" where
  "pool_Return env c = logged_unit (CReturn c) (e_Return env c)"

definition conn_SelectDatabase :: "'x env \<Rightarrow> conn \<Rightarrow> string \<Rightarrow> 'x world \<Rightarrow> 'x world" where
  "conn_SelectDatabase env c db = logged_unit (CSelectDatabase c db) (e_SelectDatabase env c db)"

definition conn_TxBegin :: "'x env \<Rightarrow> conn \<Rightarrow> TxConfig \<Rightarrow> 'x world \<Rightarrow> (error + nat) \<times> 'x world" where
  "conn_TxBegin env c txc = logged (CTxBegin c txc) (e_TxBegin env c txc)"

definition conn_TxCommit :: "'x env \<Rightarrow> conn \<Rightarrow> nat \<Rightarrow> 'x world \<Rightarrow> error option \<times> 'x world" where
  "conn_TxCommit env c h = logged (CTxCommit c h) (e_TxCommit env c h)"

definition conn_Run ::
  "'x env \<Rightarrow> conn \<Rightarrow> Command \<Rightarrow> TxConfig \<Rightarrow> 'x world \<Rightarrow> (error + nat) \<times> 'x world" where
  "conn_Run env c cmd txc = logged (CRun c cmd txc) (e_Run env c cmd txc)"

definition conn_Bookmark :: "'x env \<Rightarrow> conn \<Rightarrow> 'x world \<Rightarrow> string" where
  "conn_Bookmark env c w = e_Bookmark env c (ext w)"

text \<open>Modelled from the spec: the constant \<open>idb.DefaultDatabase\<close> is declared outside
  the embedded sources. Section 6: "\<open>DatabaseName\<close>: string (empty = resolve home)"; the
  name that stands for "no database selected" is the empty string.\<close>

definition DefaultDatabase :: string where
  "DefaultDatabase = ''''"

section \<open>The session\<close>

subsection \<open>Creation\<close>

text \<open>The first loop of \<open>cleanupBookmarks\<close>: is there an empty bookmark?\<close>

fun hasBad :: "string list \<Rightarrow> bool" where
  "hasBad [] = False"
| "hasBad (b # bs) = (if length b = 0 then True else hasBad bs)"

text \<open>The second loop: append the non-empty bookmarks to \<open>cleaned\<close>.\<close>

fun cleaned_loop :: "string list \<Rightarrow> string list \<Rightarrow> string list" where
  "cleaned_loop cleaned [] = cleaned"
| "cleaned_loop cleaned (b # bs) =
     (if length b > 0 then cleaned_loop (cleaned @ [b]) bs else cleaned_loop cleaned bs)"

definition cleanupBookmarks :: "string list \<Rightarrow> string list" where
  "cleanupBookmarks bms = (if \<not> hasBad bms then bms else cleaned_loop [] bms)"

definition newSessionWithContext :: "Config \<Rightarrow> SessionConfig \<Rightarrow> sessionWithContext" where
  "newSessionWithContext cfg sessConfig =
     (let fetchSize0 = cfg_FetchSize cfg;
          fetchSize1 = (if sc_FetchSize sessConfig \<noteq> FetchDefault then sc_FetchSize sessConfig else fetchSize0)
      in \<lparr>config = cfg,
          defaultMode = sc_AccessMode sessConfig,
          bookmarks = cleanupBookmarks (sc_Bookmarks sessConfig),
          databaseName = sc_DatabaseName sessConfig,
          impersonatedUser = sc_ImpersonatedUser sessConfig,
          resolveHomeDb = (sc_DatabaseName sessConfig = ''''),
          explicitTx = None,
          autocommitTx = None,
          throttleTime = 1000000000 * 1,
          fetchSize = fetchSize1\<rparr>)"

subsection \<open>Transaction configuration\<close>

definition defaultTransactionConfig :: TransactionConfig where
  "defaultTransactionConfig = \<lparr>Timeout = MinInt, Metadata = []\<rparr>"

text \<open>The verb \<open>%d\<close> of \<open>fmt.Sprintf\<close>, as the Go library computes it: the digits
  are written into a buffer from its end, least significant digit first, then the sign.\<close>

definition digit :: "nat \<Rightarrow> char" where
  "digit d = ''0123456789'' ! d"

fun fmtInteger :: "nat \<Rightarrow> string \<Rightarrow> string" where
  "fmtInteger u buf =
     (if 10 \<le> u then fmtInteger (u div 10) (digit (u mod 10) # buf) else digit u # buf)"

definition fmt_d :: "int \<Rightarrow> string" where
  "fmt_d v = (if v < 0 then CHR ''-'' # fmtInteger (nat (- v)) [] else fmtInteger (nat v) [])"

definition validateTransactionConfig :: "TransactionConfig \<Rightarrow> error option" where
  "validateTransactionConfig cfg =
     (if Timeout cfg \<noteq> MinInt \<and> Timeout cfg < 0
      then Some (UsageError (''Negative transaction timeouts are not allowed. Given: '' @ fmt_d (Timeout cfg)))
      else None)"

text \<open>\<open>for _, c := range configurers { c(&config) }\<close>\<close>

definition applyConfigurers ::
  "(TransactionConfig \<Rightarrow> TransactionConfig) list \<Rightarrow> TransactionConfig \<Rightarrow> TransactionConfig" where
  "applyConfigurers configurers cfg = fold (\<lambda>c acc. c acc) configurers cfg"

subsection \<open>Bookmarks\<close>

text \<open>The connection reference may be nil (\<open>None\<close>).\<close>

definition retrieveBookmarks ::
  "'x env \<Rightarrow> conn option \<Rightarrow> 'x world \<Rightarrow> sessionWithContext \<Rightarrow> sessionWithContext" where
  "retrieveBookmarks env c w s =
     (case c of
        None \<Rightarrow> s
      | Some cn \<Rightarrow>
          (let bookmark = conn_Bookmark env cn w
           in if length bookmark > 0 then s\<lparr>bookmarks := [bookmark]\<rparr> else s))"

definition LastBookmarks ::
  "'x env \<Rightarrow> sessionWithContext \<times> 'x world \<Rightarrow> string list \<times> sessionWithContext \<times> 'x world" where
  "LastBookmarks env sw =
     (case sw of (s, w) \<Rightarrow>
        (let s1 = (case autocommitTx s of
                     Some tx \<Rightarrow> retrieveBookmarks env (Some (at_conn tx)) w s
                   | None \<Rightarrow> s)
         in (bookmarks s1, s1, w)))"

definition lastBookmark ::
  "'x env \<Rightarrow> sessionWithContext \<times> 'x world \<Rightarrow> string \<times> sessionWithContext \<times> 'x world" where
  "lastBookmark env sw =
     (case sw of (s, w) \<Rightarrow>
        (let s1 = (case autocommitTx s of
                     Some tx \<Rightarrow> retrieveBookmarks env (Some (at_conn tx)) w s
                   | None \<Rightarrow> s)
         in (if length (bookmarks s1) > 0 then bookmarks s1 ! (length (bookmarks s1) - 1) else '''', s1, w)))"

subsection \<open>Closing a transaction\<close>

text \<open>The \<open>onClosed\<close> closure that \<open>BeginTransaction\<close> installs on the explicit
  transaction (called when it is committed, rolled back or closed).\<close>

definition explicitTransaction_onClosed ::
  "'x env \<Rightarrow> explicitTransaction \<Rightarrow> sessionWithContext \<times> 'x world \<Rightarrow> sessionWithContext \<times> 'x world" where
  "explicitTransaction_onClosed env tx sw =
     (case sw of (s, w) \<Rightarrow>
        (let s1 = retrieveBookmarks env (Some (et_conn tx)) w s;
             w1 = pool_Return env (et_conn tx) w
         in (s1\<lparr>explicitTx := None\<rparr>, w1)))"

text \<open>The \<open>onClosed\<close> closure that \<open>Run\<close> installs on the auto-commit transaction.\<close>

definition autocommitTransaction_onClosed ::
  "'x env \<Rightarrow> autocommitTransaction \<Rightarrow> sessionWithContext \<times> 'x world \<Rightarrow> sessionWithContext \<times> 'x world" where
  "autocommitTransaction_onClosed env tx sw =
     (case sw of (s, w) \<Rightarrow>
        (let s1 = retrieveBookmarks env (Some (at_conn tx)) w s;
             w1 = pool_Return env (at_conn tx) w
         in (s1\<lparr>autocommitTx := None\<rparr>, w1)))"

text \<open>
  Modelled from the spec: \<open>autocommitTransaction.done\<close> is called by the session but
  defined outside the embedded sources. Section 4.3, pre-flight step 2: "If a pending
  auto-commit transaction exists, close it (discard; return its connection)". The rest of
  the pending result is consumed on its connection, then the transaction is closed, which
  runs the \<open>onClosed\<close> closure above.
\<close>

definition autocommitTransaction_done ::
  "'x env \<Rightarrow> autocommitTransaction \<Rightarrow> sessionWithContext \<times> 'x world \<Rightarrow> sessionWithContext \<times> 'x world" where
  "autocommitTransaction_done env tx sw =
     (case sw of (s, w) \<Rightarrow>
        autocommitTransaction_onClosed env tx
          (s, logged_unit (CConsume (at_conn tx) (res_stream (at_res tx)))
                (e_Consume env (at_conn tx) (res_stream (at_res tx))) w))"

text \<open>\<open>if s.autocommitTx != nil { s.autocommitTx.done(ctx) }\<close>\<close>

definition finishPendingAutocommit ::
  "'x env \<Rightarrow> sessionWithContext \<times> 'x world \<Rightarrow> sessionWithContext \<times> 'x world" where
  "finishPendingAutocommit env sw =
     (case autocommitTx (fst sw) of
        Some tx \<Rightarrow> autocommitTransaction_done env tx sw
      | None \<Rightarrow> sw)"

subsection \<open>Acquiring a connection\<close>

definition resolveHomeDatabase ::
  "'x env \<Rightarrow> Context \<Rightarrow> sessionWithContext \<times> 'x world \<Rightarrow> error option \<times> sessionWithContext \<times> 'x world" where
  "resolveHomeDatabase env ctx sw =
     (case sw of (s, w) \<Rightarrow>
        if \<not> resolveHomeDb s then (None, s, w)
        else
          (case router_GetNameOfDefaultDatabase env ctx (bookmarks s) (impersonatedUser s) w of
             (Inl err, w1) \<Rightarrow> (Some err, s, w1)
           | (Inr defaultDb, w1) \<Rightarrow>
               (None, s\<lparr>databaseName := defaultDb, resolveHomeDb := False\<rparr>, w1)))"

definition getServers ::
  "'x env \<Rightarrow> Context \<Rightarrow> AccessMode \<Rightarrow> sessionWithContext \<times> 'x world \<Rightarrow> (error + string list) \<times> 'x world" where
  "getServers env ctx mode sw =
     (case sw of (s, w) \<Rightarrow>
        if mode = ReadMode then router_Readers env ctx (bookmarks s) (databaseName s) w
        else router_Writers env ctx (bookmarks s) (databaseName s) w)"

definition getConnection ::
  "'x env \<Rightarrow> Context \<Rightarrow> AccessMode \<Rightarrow> Duration \<Rightarrow> sessionWithContext \<times> 'x world
     \<Rightarrow> (error + conn) \<times> sessionWithContext \<times> 'x world" where
  "getConnection env ctx0 mode livenessCheckThreshold sw =
     (case sw of (s, w) \<Rightarrow>
        (let ctx = (if cfg_ConnectionAcquisitionTimeout (config s) > 0
                    then WithTimeout (e_now env (ext w)) ctx0 (cfg_ConnectionAcquisitionTimeout (config s))
                    else ctx0)
         in case resolveHomeDatabase env ctx (s, w) of
              (Some err, s1, w1) \<Rightarrow> (Inl (e_wrapError env err), s1, w1)
            | (None, s1, w1) \<Rightarrow>
                (case getServers env ctx mode (s1, w1) of
                   (Inl err, w2) \<Rightarrow> (Inl (e_wrapError env err), s1, w2)
                 | (Inr servers, w2) \<Rightarrow>
                     (case pool_Borrow env ctx servers
                             (cfg_ConnectionAcquisitionTimeout (config s1) \<noteq> 0)
                             livenessCheckThreshold w2 of
                        (Inl err, w3) \<Rightarrow> (Inl (e_wrapError env err), s1, w3)
                      | (Inr c, w3) \<Rightarrow>
                          if databaseName s1 \<noteq> DefaultDatabase then
                            (if \<not> e_isDatabaseSelector env c
                             then (Inl (UsageError ''Database does not support multi-database''),
                                   s1, pool_Return env c w3)
                             else (Inr c, s1, conn_SelectDatabase env c (databaseName s1) w3))
                          else (Inr c, s1, w3)))))"

subsection \<open>Explicit and auto-commit transactions\<close>

definition BeginTransaction ::
  "'x env \<Rightarrow> Context \<Rightarrow> (TransactionConfig \<Rightarrow> TransactionConfig) list \<Rightarrow> sessionWithContext \<times> 'x world
     \<Rightarrow> (error + explicitTransaction) \<times> sessionWithContext \<times> 'x world" where
  "BeginTransaction env ctx configurers sw =
     (case sw of (s, w) \<Rightarrow>
        if explicitTx s \<noteq> None
        then (Inl (UsageError ''Session already has a pending transaction''), s, w)
        else
          (case finishPendingAutocommit env (s, w) of (s1, w1) \<Rightarrow>
             (let cfg = applyConfigurers configurers defaultTransactionConfig
              in case validateTransactionConfig cfg of
                   Some err \<Rightarrow> (Inl err, s1, w1)
                 | None \<Rightarrow>
                     (case getConnection env ctx (defaultMode s1) (e_DefaultLivenessCheckThreshold env) (s1, w1) of
                        (Inl err, s2, w2) \<Rightarrow> (Inl err, s2, w2)
                      | (Inr c, s2, w2) \<Rightarrow>
                          (case conn_TxBegin env c
                                  \<lparr>tx_Mode = defaultMode s2, tx_Bookmarks = bookmarks s2,
                                   tx_Timeout = Timeout cfg, tx_Meta = Metadata cfg,
                                   tx_ImpersonatedUser = impersonatedUser s2\<rparr> w2 of
                             (Inl err, w3) \<Rightarrow> (Inl (e_wrapError env err), s2, pool_Return env c w3)
                           | (Inr txHandle, w3) \<Rightarrow>
                               (let tx = \<lparr>et_conn = c, et_fetchSize = fetchSize s2, et_txHandle = txHandle\<rparr>
                                in (Inr tx, s2\<lparr>explicitTx := Some tx\<rparr>, w3)))))))"

definition Run ::
  "'x env \<Rightarrow> Context \<Rightarrow> string \<Rightarrow> (string \<times> string) list \<Rightarrow> (TransactionConfig \<Rightarrow> TransactionConfig) list
     \<Rightarrow> sessionWithContext \<times> 'x world
     \<Rightarrow> (error + resultWithContext) \<times> sessionWithContext \<times> 'x world" where
  "Run env ctx cypher params configurers sw =
     (case sw of (s, w) \<Rightarrow>
        if explicitTx s \<noteq> None
        then (Inl (UsageError ''Trying to run auto-commit transaction while in explicit transaction''), s, w)
        else
          (case finishPendingAutocommit env (s, w) of (s1, w1) \<Rightarrow>
             (let cfg = applyConfigurers configurers defaultTransactionConfig
              in case validateTransactionConfig cfg of
                   Some err \<Rightarrow> (Inl err, s1, w1)
                 | None \<Rightarrow>
                     (case getConnection env ctx (defaultMode s1) (e_DefaultLivenessCheckThreshold env) (s1, w1) of
                        (Inl err, s2, w2) \<Rightarrow> (Inl err, s2, w2)
                      | (Inr c, s2, w2) \<Rightarrow>
                          (case conn_Run env c
                                  \<lparr>cmd_Cypher = cypher, cmd_Params = params, cmd_FetchSize = fetchSize s2\<rparr>
                                  \<lparr>tx_Mode = defaultMode s2, tx_Bookmarks = bookmarks s2,
                                   tx_Timeout = Timeout cfg, tx_Meta = Metadata cfg,
                                   tx_ImpersonatedUser = impersonatedUser s2\<rparr> w2 of
                             (Inl err, w3) \<Rightarrow> (Inl (e_wrapError env err), s2, pool_Return env c w3)
                           | (Inr stream, w3) \<Rightarrow>
                               (let res = \<lparr>res_conn = c, res_stream = stream,
                                           res_cypher = cypher, res_params = params\<rparr>;
                                    tx = \<lparr>at_conn = c, at_res = res\<rparr>
                                in (Inr res, s2\<lparr>autocommitTx := Some tx\<rparr>, w3)))))))"

definition getServerInfo ::
  "'x env \<Rightarrow> Context \<Rightarrow> sessionWithContext \<times> 'x world \<Rightarrow> (error + ServerInfo) \<times> sessionWithContext \<times> 'x world" where
  "getServerInfo env ctx sw =
     (case resolveHomeDatabase env ctx sw of
        (Some err, s1, w1) \<Rightarrow> (Inl (e_wrapError env err), s1, w1)
      | (None, s1, w1) \<Rightarrow>
          (case getServers env ctx ReadMode (s1, w1) of
             (Inl err, w2) \<Rightarrow> (Inl (e_wrapError env err), s1, w2)
           | (Inr servers, w2) \<Rightarrow>
               (case pool_Borrow env ctx servers (cfg_ConnectionAcquisitionTimeout (config s1) \<noteq> 0) 0 w2 of
                  (Inl err, w3) \<Rightarrow> (Inl (e_wrapError env err), s1, w3)
                | (Inr c, w3) \<Rightarrow>
                    (Inr \<lparr>si_address = e_ServerName env c, si_agent = e_ServerVersion env c,
                          si_protocolVersion = e_Version env c\<rparr>,
                     s1, pool_Return env c w3))))"

subsection \<open>Managed transactions and the retry loop\<close>

text \<open>
  Modelled from the spec: \<open>retry.State\<close> with its methods \<open>Continue\<close> and
  \<open>OnFailure\<close> is used by \<open>runRetriable\<close> but defined outside the embedded sources.
  The fields are the ones \<open>runRetriable\<close> sets and reads; \<open>start\<close> is the time of the
  first call of \<open>Continue\<close>. Section 4.4: a failure is classified (the classification
  is the parameter \<open>e_isRetryable\<close>); "For Retryable classes, compute a jittered backoff
  (initial 1 s, multiplier 2.0, ...) Sleep via the injected sleeper"; "On DeadConnection,
  call the router's InvalidateReader or InvalidateWriter depending on mode"; "The loop
  terminates when either the deadline is exceeded or the last error is non-retryable. If
  retries occurred, emit a TransactionExecutionLimit error whose body includes the list of
  observed errors and their inferred causes". \<open>runRetriable\<close> emits that error when
  \<open>LastErrWasRetryable\<close> is set, under the comment "When retries has occurred wrap the
  error, the last error is always added but cause is only set when the retry logic could
  detect something strange". So every observed error is recorded in \<open>Errs\<close>; a cause is
  recorded only when one is inferred (the parameter \<open>e_inferCause\<close>); and
  \<open>LastErrWasRetryable\<close> is raised by a retryable error and stays raised, so that it
  is set whenever a retry has occurred. The random jitter is left out, and the spec gives
  no part to the argument \<open>isCommitting\<close> of \<open>OnFailure\<close>.
\<close>

record retry_State =
  Errs :: "error list"
  Causes :: "string list"
  MaxTransactionRetryTime :: Duration
  Throttle :: Duration
  MaxDeadConnections :: int
  DatabaseName :: string
  LastErrWasRetryable :: bool
  LastErr :: "error option"
  start :: "int option"

text \<open>The closure \<open>OnDeadConnection\<close> that \<open>runRetriable\<close> puts into the retry state.\<close>

definition OnDeadConnection ::
  "'x env \<Rightarrow> AccessMode \<Rightarrow> sessionWithContext \<Rightarrow> string \<Rightarrow> 'x world \<Rightarrow> error option \<times> 'x world" where
  "OnDeadConnection env mode s server w =
     (if mode = WriteMode
      then (case router_InvalidateWriter env (databaseName s) server w of
              (Some err, w1) \<Rightarrow> (Some err, w1)
            | (None, w1) \<Rightarrow> (None, w1))
      else (case router_InvalidateReader env (databaseName s) server w of
              (Some err, w1) \<Rightarrow> (Some err, w1)
            | (None, w1) \<Rightarrow> (None, w1)))"

text \<open>Modelled from the spec: \<open>retry.State.OnFailure\<close> (see above). The call itself is
  logged, as the calls on the other collaborators are.\<close>

definition retry_OnFailure ::
  "'x env \<Rightarrow> AccessMode \<Rightarrow> sessionWithContext \<Rightarrow> conn option \<Rightarrow> error \<Rightarrow> bool
     \<Rightarrow> retry_State \<times> 'x world \<Rightarrow> retry_State \<times> 'x world" where
  "retry_OnFailure env mode s c err isCommitting stw =
     (case stw of (st, w) \<Rightarrow>
        (let st1 = st\<lparr>LastErr := Some err,
                      LastErrWasRetryable := (LastErrWasRetryable st \<or> e_isRetryable env err),
                      Errs := Errs st @ [err],
                      Causes := Causes st @ (case e_inferCause env err of
                                               None \<Rightarrow> []
                                             | Some cause \<Rightarrow> [cause])\<rparr>;
             w1 = w\<lparr>calls := calls w @ [COnFailure err isCommitting]\<rparr>
         in case c of
              None \<Rightarrow> (st1, w1)
            | Some cn \<Rightarrow>
                if \<not> e_IsAlive env cn (ext w1)
                then (st1, snd (OnDeadConnection env mode s (e_ServerName env cn) w1))
                else (st1, w1)))"

text \<open>Modelled from the spec: the deadline test of \<open>retry.State.Continue\<close>, "the deadline is
  exceeded": more than \<open>MaxTransactionRetryTime\<close> has passed since \<open>start\<close>.\<close>

definition deadlineExceeded :: "'x env \<Rightarrow> retry_State \<Rightarrow> 'x world \<Rightarrow> bool" where
  "deadlineExceeded env st w =
     (case start st of
        None \<Rightarrow> False
      | Some t0 \<Rightarrow> e_now env (ext w) - t0 > MaxTransactionRetryTime st)"

text \<open>Modelled from the spec: \<open>retry.State.Continue\<close> (see above). Before any failure the
  loop goes on; after a failure it ends when the last error is not retryable or the
  deadline is exceeded, and otherwise sleeps and goes on.\<close>

definition retry_Continue ::
  "'x env \<Rightarrow> retry_State \<times> 'x world \<Rightarrow> bool \<times> retry_State \<times> 'x world" where
  "retry_Continue env stw =
     (case stw of (st, w) \<Rightarrow>
        (case LastErr st of
           None \<Rightarrow> (True, st\<lparr>start := Some (e_now env (ext w))\<rparr>, w)
         | Some err \<Rightarrow>
             if \<not> e_isRetryable env err then (False, st, w)
             else if deadlineExceeded env st w then (False, st, w)
             else (True,
                   st\<lparr>Throttle := min (2 * Throttle st) (MaxTransactionRetryTime st)\<rparr>,
                   logged_unit (CSleep (Throttle st)) (e_sleep env (Throttle st)) w)))"

text \<open>The user's work function acts on the external state through the transaction.\<close>

definition user_work ::
  "(managedTransaction \<Rightarrow> 'x \<Rightarrow> (error + 'a) \<times> 'x) \<Rightarrow> managedTransaction \<Rightarrow> 'x world
     \<Rightarrow> (error + 'a) \<times> 'x world" where
  "user_work work tx w = (case work tx (ext w) of (r, x) \<Rightarrow> (r, w\<lparr>ext := x\<rparr>))"

text \<open>The result is \<open>(tryAgain, result)\<close>; the deferred \<open>pool.Return\<close> runs last on every
  path after a connection was acquired.\<close>

definition executeTransactionFunction ::
  "'x env \<Rightarrow> Context \<Rightarrow> AccessMode \<Rightarrow> TransactionConfig
     \<Rightarrow> (managedTransaction \<Rightarrow> 'x \<Rightarrow> (error + 'a) \<times> 'x)
     \<Rightarrow> retry_State \<times> sessionWithContext \<times> 'x world
     \<Rightarrow> (bool \<times> 'a option) \<times> retry_State \<times> sessionWithContext \<times> 'x world" where
  "executeTransactionFunction env ctx mode cfg work stsw =
     (case stsw of (st, s, w) \<Rightarrow>
        (case getConnection env ctx mode (e_DefaultLivenessCheckThreshold env) (s, w) of
           (Inl err, s1, w1) \<Rightarrow>
             (case retry_OnFailure env mode s1 None err False (st, w1) of
                (st1, w1') \<Rightarrow> ((True, None), st1, s1, w1'))
         | (Inr c, s1, w1) \<Rightarrow>
             (case conn_TxBegin env c
                     \<lparr>tx_Mode = mode, tx_Bookmarks = bookmarks s1,
                      tx_Timeout = Timeout cfg, tx_Meta = Metadata cfg,
                      tx_ImpersonatedUser = impersonatedUser s1\<rparr> w1 of
                (Inl err, w2) \<Rightarrow>
                  (case retry_OnFailure env mode s1 (Some c) err False (st, w2) of
                     (st2, w2') \<Rightarrow> ((True, None), st2, s1, pool_Return env c w2'))
              | (Inr txHandle, w2) \<Rightarrow>
                  (let tx = \<lparr>mt_conn = c, mt_fetchSize = fetchSize s1, mt_txHandle = txHandle\<rparr>
                   in case user_work work tx w2 of
                        (Inl err, w3) \<Rightarrow>
                          (case retry_OnFailure env mode s1 (Some c) err False (st, w3) of
                             (st3, w3') \<Rightarrow> ((True, None), st3, s1, pool_Return env c w3'))
                      | (Inr x, w3) \<Rightarrow>
                          (case conn_TxCommit env c txHandle w3 of
                             (Some err, w4) \<Rightarrow>
                               (case retry_OnFailure env mode s1 (Some c) err True (st, w4) of
                                  (st4, w4') \<Rightarrow> ((True, None), st4, s1, pool_Return env c w4'))
                           | (None, w4) \<Rightarrow>
                               ((False, Some x), st, retrieveBookmarks env (Some c) w4 s1,
                                pool_Return env c w4))))))"

text \<open>
  The loop \<open>for state.Continue() { ... }\<close> of \<open>runRetriable\<close>, with fuel: \<open>None\<close> means
  that the fuel ran out before the loop ended. \<open>Some (Some x, ...)\<close> is the return from
  inside the loop, \<open>Some (None, ...)\<close> is the exit through \<open>Continue\<close>.
\<close>

fun retry_loop ::
  "nat \<Rightarrow> 'x env \<Rightarrow> Context \<Rightarrow> AccessMode \<Rightarrow> TransactionConfig
     \<Rightarrow> (managedTransaction \<Rightarrow> 'x \<Rightarrow> (error + 'a) \<times> 'x)
     \<Rightarrow> retry_State \<times> sessionWithContext \<times> 'x world
     \<Rightarrow> ('a option option \<times> retry_State \<times> sessionWithContext \<times> 'x world) option" where
  "retry_loop 0 env ctx mode cfg work stsw = None"
| "retry_loop (Suc n) env ctx mode cfg work stsw =
     (case stsw of (st, s, w) \<Rightarrow>
        (case retry_Continue env (st, w) of
           (False, st1, w1) \<Rightarrow> Some (None, st1, s, w1)
         | (True, st1, w1) \<Rightarrow>
             (case executeTransactionFunction env ctx mode cfg work (st1, s, w1) of
                ((tryAgain, result), st2, s2, w2) \<Rightarrow>
                  if tryAgain then retry_loop n env ctx mode cfg work (st2, s2, w2)
                  else Some (Some result, st2, s2, w2))))"

text \<open>The error \<open>runRetriable\<close> returns once the loop has been left through
  \<open>Continue\<close>. \<open>wrapError\<close> of a nil error is nil.\<close>

definition retry_error :: "'x env \<Rightarrow> retry_State \<Rightarrow> error option" where
  "retry_error env st =
     (if LastErrWasRetryable st then Some (TransactionExecutionLimit (Errs st) (Causes st))
      else map_option (e_wrapError env) (LastErr st))"

text \<open>The result is the pair \<open>(result, error)\<close> of the Go function.\<close>

definition runRetriable ::
  "'x env \<Rightarrow> nat \<Rightarrow> Context \<Rightarrow> AccessMode
     \<Rightarrow> (managedTransaction \<Rightarrow> 'x \<Rightarrow> (error + 'a) \<times> 'x)
     \<Rightarrow> (TransactionConfig \<Rightarrow> TransactionConfig) list
     \<Rightarrow> sessionWithContext \<times> 'x world
     \<Rightarrow> (('a option \<times> error option) \<times> sessionWithContext \<times> 'x world) option" where
  "runRetriable env fuel ctx mode work configurers sw =
     (case sw of (s, w) \<Rightarrow>
        if explicitTx s \<noteq> None
        then Some ((None, Some (UsageError ''Session already has a pending transaction'')), s, w)
        else
          (case finishPendingAutocommit env (s, w) of (s1, w1) \<Rightarrow>
             (let cfg = applyConfigurers configurers defaultTransactionConfig
              in case validateTransactionConfig cfg of
                   Some err \<Rightarrow> Some ((None, Some err), s1, w1)
                 | None \<Rightarrow>
                     (let state = \<lparr>Errs = [], Causes = [],
                                   MaxTransactionRetryTime = cfg_MaxTransactionRetryTime (config s1),
                                   Throttle = throttleTime s1,
                                   MaxDeadConnections = cfg_MaxConnectionPoolSize (config s1),
                                   DatabaseName = databaseName s1,
                                   LastErrWasRetryable = False,
                                   LastErr = None,
                                   start = None\<rparr>
                      in case retry_loop fuel env ctx mode cfg work (state, s1, w1) of
                           None \<Rightarrow> None
                         | Some (Some result, st, s2, w2) \<Rightarrow> Some ((result, None), s2, w2)
                         | Some (None, st, s2, w2) \<Rightarrow> Some ((None, retry_error env st), s2, w2)))))"

definition ExecuteRead ::
  "'x env \<Rightarrow> nat \<Rightarrow> Context
     \<Rightarrow> (managedTransaction \<Rightarrow> 'x \<Rightarrow> (error + 'a) \<times> 'x)
     \<Rightarrow> (TransactionConfig \<Rightarrow> TransactionConfig) list
     \<Rightarrow> sessionWithContext \<times> 'x world
     \<Rightarrow> (('a option \<times> error option) \<times> sessionWithContext \<times> 'x world) option" where
  "ExecuteRead env fuel ctx work configurers sw = runRetriable env fuel ctx ReadMode work configurers sw"

definition ExecuteWrite ::
  "'x env \<Rightarrow> nat \<Rightarrow> Context
     \<Rightarrow> (managedTransaction \<Rightarrow> 'x \<Rightarrow> (error + 'a) \<times> 'x)
     \<Rightarrow> (TransactionConfig \<Rightarrow> TransactionConfig) list
     \<Rightarrow> sessionWithContext \<times> 'x world
     \<Rightarrow> (('a option \<times> error option) \<times> sessionWithContext \<times> 'x world) option" where
  "ExecuteWrite env fuel ctx work configurers sw = runRetriable env fuel ctx WriteMode work configurers sw"

section \<open>The read-timeout hint of the connection\<close>

text \<open>Values of the metadata of a server reply, as far as their shape matters.\<close>

datatype bolt_value = VInt int | VFloat real | VString string | VBool bool | VNull

definition second :: Duration where
  "second = 1000000000"

definition readTimeoutHintName :: string where
  "readTimeoutHintName = ''connection.recv_timeout_seconds''"

text \<open>
  Modelled from the spec: the handling of the \<open>SUCCESS\<close> reply to \<open>HELLO\<close> of the
  \<open>bolt5\<close> connection is outside the embedded sources (only its test \<open>TestBolt5\<close> is
  there). Section 4.2.1: extract "the hint \<open>connection.recv_timeout_seconds\<close> (accept
  only positive integers; ignore all other shapes and retain the default -1)". The first
  argument is the read timeout before the reply, the result the one after it; as in the
  test, a hint of \<open>n\<close> seconds is the duration \<open>n * time.Second\<close>.
\<close>

definition initializeReadTimeoutHint :: "Duration \<Rightarrow> (string \<rightharpoonup> bolt_value) \<Rightarrow> Duration" where
  "initializeReadTimeoutHint connReadTimeout hints =
     (case hints readTimeoutHintName of
        Some (VInt n) \<Rightarrow> if n > 0 then n * second else connReadTimeout
      | _ \<Rightarrow> connReadTimeout)"

text \<open>Modelled from the spec: the read timeout of a connection after a successful
  connect, \<open>time.Duration(-1)\<close> before the hints of the reply are read.\<close>

definition connReadTimeout_after_hello :: "(string \<rightharpoonup> bolt_value) \<Rightarrow> Duration" where
  "connReadTimeout_after_hello hints = initializeReadTimeoutHint (- 1) hints"

section \<open>Observations on the log of calls\<close>

text \<open>The calls of \<open>GetNameOfDefaultDatabase\<close> on the router, and those that succeeded.\<close>

fun isResolveCall :: "call \<Rightarrow> bool" where
  "isResolveCall (CGetNameOfDefaultDatabase ctx bms user r) = True"
| "isResolveCall c = False"

definition resolveCalls :: "'x world \<Rightarrow> call list" where
  "resolveCalls w = filter isResolveCall (calls w)"

text \<open>The calls of \<open>Borrow\<close> on the pool.\<close>

fun isBorrowCall :: "call \<Rightarrow> bool" where
  "isBorrowCall (CBorrow ctx servers wait thr) = True"
| "isBorrowCall c = False"

definition borrowCalls :: "'x world \<Rightarrow> call list" where
  "borrowCalls w = filter isBorrowCall (calls w)"

text \<open>The calls of \<open>TxBegin\<close> on a connection: one for each attempt of a managed
  transaction that got a connection.\<close>

fun isTxBeginCall :: "call \<Rightarrow> bool" where
  "isTxBeginCall (CTxBegin c txc) = True"
| "isTxBeginCall c = False"

text \<open>The database name a call of \<open>GetNameOfDefaultDatabase\<close> returned, if it
  succeeded.\<close>

fun resolvedTo :: "call \<Rightarrow> string option" where
  "resolvedTo (CGetNameOfDefaultDatabase ctx bms user (Inr db)) = Some db"
| "resolvedTo c = None"

text \<open>
  What a step of the session from \<open>(s, w)\<close> to \<open>(s', w')\<close> may do about the home
  database: a resolved session stays resolved, keeps its database name and does not call
  \<open>GetNameOfDefaultDatabase\<close>; a session that stays unresolved keeps its name, and
  every call it made failed; a session that becomes resolved has made exactly one
  successful call, its last one, and has cached the name that call returned.
\<close>

definition resolvesAtMostOnce ::
  "sessionWithContext \<times> 'x world \<Rightarrow> sessionWithContext \<times> 'x world \<Rightarrow> bool" where
  "resolvesAtMostOnce sw sw' =
     (case (sw, sw') of ((s, w), (s', w')) \<Rightarrow>
        (let old = resolveCalls w;
             new = drop (length old) (resolveCalls w')
         in take (length old) (resolveCalls w') = old \<and>
            (if \<not> resolveHomeDb s
             then \<not> resolveHomeDb s' \<and> databaseName s' = databaseName s \<and> new = []
             else if resolveHomeDb s'
             then databaseName s' = databaseName s \<and> list_all (\<lambda>c. resolvedTo c = None) new
             else new \<noteq> [] \<and> list_all (\<lambda>c. resolvedTo c = None) (butlast new)
                  \<and> resolvedTo (last new) = Some (databaseName s'))))"

text \<open>The errors of the failed attempts of managed transactions, in the order in which
  \<open>OnFailure\<close> was called with them, and the sleeps before the retries.\<close>

fun failureOf :: "call \<Rightarrow> error option" where
  "failureOf (COnFailure err isCommitting) = Some err"
| "failureOf c = None"

definition failures :: "'x world \<Rightarrow> error list" where
  "failures w = List.map_filter failureOf (calls w)"

fun isSleepCall :: "call \<Rightarrow> bool" where
  "isSleepCall (CSleep d) = True"
| "isSleepCall c = False"

definition sleeps :: "'x world \<Rightarrow> call list" where
  "sleeps w = filter isSleepCall (calls w)"




section \<open>A concrete environment\<close>

text \<open>
  A small instance of the collaborators, on which the theorems below are exercised: the
  external state is a clock (in nanoseconds) that sleeping advances; one
  server, one connection (number 7) whose bookmark is \<open>bm\<close>; every call succeeds. The
  home database is \<open>neo4j\<close>. Only the error \<open>OtherError ''transient''\<close> is retryable,
  and a cause is inferred for this error only.
\<close>

definition env0 :: "int env" where
  "env0 =
     \<lparr>e_GetNameOfDefaultDatabase = (\<lambda>ctx bms user x. (Inr ''neo4j'', x)),
      e_Readers = (\<lambda>ctx bms db x. (Inr [''reader''], x)),
      e_Writers = (\<lambda>ctx bms db x. (Inr [''writer''], x)),
      e_InvalidateReader = (\<lambda>db server x. (None, x)),
      e_InvalidateWriter = (\<lambda>db server x. (None, x)),
      e_Borrow = (\<lambda>ctx servers wait thr x. (Inr 7, x)),
      e_Return = (\<lambda>c x. x),
      e_isDatabaseSelector = (\<lambda>c. True),
      e_SelectDatabase = (\<lambda>c db x. x),
      e_TxBegin = (\<lambda>c txc x. (Inr 1, x)),
      e_TxCommit = (\<lambda>c h x. (None, x)),
      e_Run = (\<lambda>c cmd txc x. (Inr 3, x)),
      e_Consume = (\<lambda>c stream x. x),
      e_Bookmark = (\<lambda>c x. ''bm''),
      e_IsAlive = (\<lambda>c x. True),
      e_ServerName = (\<lambda>c. ''serverName''),
      e_ServerVersion = (\<lambda>c. ''Neo4j/5.0.0''),
      e_Version = (\<lambda>c. (5, 0)),
      e_wrapError = (\<lambda>err. err),
      e_now = (\<lambda>x. x),
      e_sleep = (\<lambda>d x. x + d),
      e_isRetryable = (\<lambda>err. err = OtherError ''transient''),
      e_inferCause = (\<lambda>err. if err = OtherError ''transient'' then Some ''Transient error'' else None),
      e_DefaultLivenessCheckThreshold = 9223372036854775807\<rparr>"


definition cfg0 :: Config where
  "cfg0 = \<lparr>cfg_FetchSize = 1000, cfg_MaxTransactionRetryTime = 30 * second,
           cfg_MaxConnectionPoolSize = 100, cfg_ConnectionAcquisitionTimeout = 60 * second\<rparr>"

definition sessConfig0 :: SessionConfig where
  "sessConfig0 = \<lparr>sc_AccessMode = WriteMode, sc_Bookmarks = [''a'', '''', ''b''],
                  sc_DatabaseName = '''', sc_FetchSize = 0, sc_ImpersonatedUser = ''''\<rparr>"

definition session0 :: sessionWithContext where
  "session0 = newSessionWithContext cfg0 sessConfig0"

definition world0 :: "int world" where
  "world0 = \<lparr>ext = 0, calls = []\<rparr>"

definition ctx0 :: Context where
  "ctx0 = \<lparr>deadline = None\<rparr>"

text \<open>A session with a pending explicit transaction on connection 7.\<close>

definition session_in_tx :: sessionWithContext where
  "session_in_tx = session0\<lparr>explicitTx := Some \<lparr>et_conn = 7, et_fetchSize = 1000, et_txHandle = 1\<rparr>\<rparr>"

text \<open>A pending auto-commit transaction on connection 7.\<close>

definition autocommit0 :: autocommitTransaction where
  "autocommit0 = \<lparr>at_conn = 7, at_res = \<lparr>res_conn = 7, res_stream = 3,
                   res_cypher = ''RETURN 1'', res_params = []\<rparr>\<rparr>"

text \<open>Work that succeeds, and work that fails with a retryable error when the clock is
  at 0 and with another error afterwards.\<close>

definition work_ok :: "managedTransaction \<Rightarrow> int \<Rightarrow> (error + nat) \<times> int" where
  "work_ok tx x = (Inr 42, x)"



text \<open>A configurer that sets the timeout, as \<open>WithTxTimeout\<close> of the driver does.\<close>

definition withTimeout :: "Duration \<Rightarrow> TransactionConfig \<Rightarrow> TransactionConfig" where
  "withTimeout d c = c\<lparr>Timeout := d\<rparr>"

text \<open>The retry state \<open>runRetriable\<close> starts with, for the session \<open>session0\<close>.\<close>

definition retry0 :: retry_State where
  "retry0 = \<lparr>Errs = [], Causes = [], MaxTransactionRetryTime = 30 * second,
             Throttle = second, MaxDeadConnections = 100, DatabaseName = '''',
             LastErrWasRetryable = False, LastErr = None, start = None\<rparr>"


text \<open>The session \<open>session0\<close> of a driver configured with
  \<open>ConnectionAcquisitionTimeout = 0\<close>.\<close>

definition session_no_timeout :: sessionWithContext where
  "session_no_timeout = session0\<lparr>config := cfg0\<lparr>cfg_ConnectionAcquisitionTimeout := 0\<rparr>\<rparr>"

text \<open>The session and the world after \<open>Run\<close> on \<open>session0\<close> in \<open>world0\<close>: the home
  database is resolved and an auto-commit transaction is pending.\<close>

definition session1 :: sessionWithContext where
  "session1 = session0\<lparr>databaseName := ''neo4j'', resolveHomeDb := False,
                        autocommitTx := Some autocommit0\<rparr>"

definition world1 :: "int world" where
  "world1 =
     \<lparr>ext = 0,
      calls =
        [CGetNameOfDefaultDatabase \<lparr>deadline = Some 60000000000\<rparr> [''a'', ''b''] [] (Inr ''neo4j''),
         CWriters \<lparr>deadline = Some 60000000000\<rparr> [''a'', ''b''] ''neo4j'',
         CBorrow \<lparr>deadline = Some 60000000000\<rparr> [''writer''] True 9223372036854775807,
         CSelectDatabase 7 ''neo4j'',
         CRun 7 \<lparr>cmd_Cypher = ''RETURN 1'', cmd_Params = [], cmd_FetchSize = 1000\<rparr>
           \<lparr>tx_Mode = WriteMode, tx_Bookmarks = [''a'', ''b''], tx_Timeout = MinInt,
            tx_Meta = [], tx_ImpersonatedUser = []\<rparr>]\<rparr>"

text \<open>The session and the world after a following \<open>ExecuteWrite\<close> of \<open>work_ok\<close>.\<close>

definition session2 :: sessionWithContext where
  "session2 = session0\<lparr>bookmarks := [''bm''], databaseName := ''neo4j'', resolveHomeDb := False\<rparr>"

definition world2 :: "int world" where
  "world2 =
     \<lparr>ext = 0,
      calls = calls world1 @
        [CConsume 7 3, CReturn 7,
         CWriters \<lparr>deadline = Some 60000000000\<rparr> [''bm''] ''neo4j'',
         CBorrow \<lparr>deadline = Some 60000000000\<rparr> [''writer''] True 9223372036854775807,
         CSelectDatabase 7 ''neo4j'',
         CTxBegin 7 \<lparr>tx_Mode = WriteMode, tx_Bookmarks = [''bm''], tx_Timeout = MinInt,
            tx_Meta = [], tx_ImpersonatedUser = []\<rparr>,
         CTxCommit 7 1, CReturn 7]\<rparr>"

text \<open>The world after one successful attempt of a managed transaction with \<open>work_ok\<close>,
  from \<open>session0\<close> in \<open>world0\<close>; the session is then \<open>session2\<close>.\<close>

definition world3 :: "int world" where
  "world3 =
     \<lparr>ext = 0,
      calls =
        [CGetNameOfDefaultDatabase \<lparr>deadline = Some 60000000000\<rparr> [''a'', ''b''] [] (Inr ''neo4j''),
         CWriters \<lparr>deadline = Some 60000000000\<rparr> [''a'', ''b''] ''neo4j'',
         CBorrow \<lparr>deadline = Some 60000000000\<rparr> [''writer''] True 9223372036854775807,
         CSelectDatabase 7 ''neo4j'',
         CTxBegin 7 \<lparr>tx_Mode = WriteMode, tx_Bookmarks = [''a'', ''b''], tx_Timeout = MinInt,
            tx_Meta = [], tx_ImpersonatedUser = []\<rparr>,
         CTxCommit 7 1, CReturn 7]\<rparr>"

text \<open>The world after \<open>BeginTransaction\<close>, \<open>Run\<close>, \<open>ExecuteRead\<close> or \<open>ExecuteWrite\<close>
  with a negative timeout on \<open>session1\<close> in \<open>world1\<close>.\<close>

definition world4 :: "int world" where
  "world4 = \<lparr>ext = 0, calls = calls world1 @ [CConsume 7 3, CReturn 7]\<rparr>"

section \<open>Frame lemmas\<close>

text \<open>A session whose home database is resolved stays so, with the same name, and
  makes no further call of \<open>GetNameOfDefaultDatabase\<close>.\<close>

lemma resolveCalls_logged_unit [simp]:
  "\<not> isResolveCall c \<Longrightarrow> resolveCalls (logged_unit c f w) = resolveCalls w"
  by (simp add: resolveCalls_def logged_unit_def)

lemma resolveCalls_logged:
  "logged c f w = (r, w') \<Longrightarrow> \<not> isResolveCall c \<Longrightarrow> resolveCalls w' = resolveCalls w"
  by (auto simp: resolveCalls_def logged_def split: prod.splits)

lemma resolveCalls_ext [simp]: "resolveCalls (w\<lparr>ext := x\<rparr>) = resolveCalls w"
  by (simp add: resolveCalls_def)

lemma retrieveBookmarks_fields [simp]:
  "resolveHomeDb (retrieveBookmarks env c w s) = resolveHomeDb s"
  "databaseName (retrieveBookmarks env c w s) = databaseName s"
  "explicitTx (retrieveBookmarks env c w s) = explicitTx s"
  "autocommitTx (retrieveBookmarks env c w s) = autocommitTx s"
  "config (retrieveBookmarks env c w s) = config s"
  "defaultMode (retrieveBookmarks env c w s) = defaultMode s"
  "impersonatedUser (retrieveBookmarks env c w s) = impersonatedUser s"
  "fetchSize (retrieveBookmarks env c w s) = fetchSize s"
  "throttleTime (retrieveBookmarks env c w s) = throttleTime s"
  by (simp_all add: retrieveBookmarks_def Let_def split: option.splits)

lemma finishPending_resolved:
  "finishPendingAutocommit env (s, w) = (s', w') \<Longrightarrow>
     resolveHomeDb s' = resolveHomeDb s \<and> databaseName s' = databaseName s
     \<and> explicitTx s' = explicitTx s \<and> autocommitTx s' = None
     \<and> resolveCalls w' = resolveCalls w"
  by (auto simp: finishPendingAutocommit_def autocommitTransaction_done_def
        autocommitTransaction_onClosed_def pool_Return_def Let_def split: option.splits)

lemma getServers_resolveCalls:
  "getServers env ctx mode (s, w) = (r, w') \<Longrightarrow> resolveCalls w' = resolveCalls w"
  by (auto simp: getServers_def router_Readers_def router_Writers_def
           dest: resolveCalls_logged split: if_splits)

lemma OnDeadConnection_resolveCalls:
  "OnDeadConnection env mode s server w = (r, w') \<Longrightarrow> resolveCalls w' = resolveCalls w"
  by (auto simp: OnDeadConnection_def router_InvalidateWriter_def router_InvalidateReader_def
           dest: resolveCalls_logged split: if_splits prod.splits option.splits)

lemma resolveCalls_append_call [simp]:
  "\<not> isResolveCall c \<Longrightarrow> resolveCalls (w\<lparr>calls := calls w @ [c]\<rparr>) = resolveCalls w"
  by (simp add: resolveCalls_def)

lemma retry_OnFailure_resolveCalls:
  "retry_OnFailure env mode s c err ic (st, w) = (st', w') \<Longrightarrow> resolveCalls w' = resolveCalls w"
  by (auto simp: retry_OnFailure_def Let_def
              OnDeadConnection_resolveCalls [OF prod.collapse [symmetric]]
           split: option.splits if_splits)

lemma retry_Continue_resolveCalls:
  "retry_Continue env (st, w) = (b, st', w') \<Longrightarrow> resolveCalls w' = resolveCalls w"
  by (auto simp: retry_Continue_def split: option.splits if_splits)

lemma user_work_resolveCalls:
  "user_work work tx w = (r, w') \<Longrightarrow> resolveCalls w' = resolveCalls w"
  by (auto simp: user_work_def split: prod.splits)

lemma conn_TxBegin_resolveCalls:
  "conn_TxBegin env c txc w = (r, w') \<Longrightarrow> resolveCalls w' = resolveCalls w"
  by (auto simp: conn_TxBegin_def dest: resolveCalls_logged)

lemma conn_TxCommit_resolveCalls:
  "conn_TxCommit env c h w = (r, w') \<Longrightarrow> resolveCalls w' = resolveCalls w"
  by (auto simp: conn_TxCommit_def dest: resolveCalls_logged)

lemma conn_Run_resolveCalls:
  "conn_Run env c cmd txc w = (r, w') \<Longrightarrow> resolveCalls w' = resolveCalls w"
  by (auto simp: conn_Run_def dest: resolveCalls_logged)

lemma pool_Return_resolveCalls [simp]:
  "resolveCalls (pool_Return env c w) = resolveCalls w"
  by (simp add: pool_Return_def)

lemma LastBookmarks_resolved:
  "LastBookmarks env (s, w) = (r, s', w') \<Longrightarrow>
   resolveHomeDb s' = resolveHomeDb s \<and> databaseName s' = databaseName s \<and> w' = w"
  by (auto simp: LastBookmarks_def Let_def split: option.splits)

section \<open>Creation of a session: the bookmarks are cleaned\<close>

lemma cleaned_loop_filter: "cleaned_loop acc bs = acc @ filter (\<lambda>b. b \<noteq> []) bs"
  by (induction bs arbitrary: acc) auto

lemma hasBad_iff: "hasBad bs \<longleftrightarrow> [] \<in> set bs"
  by (induction bs) auto

lemma cleanupBookmarks_filter: "cleanupBookmarks bs = filter (\<lambda>b. b \<noteq> []) bs"
proof (cases "hasBad bs")
  case True
  then show ?thesis by (simp add: cleanupBookmarks_def cleaned_loop_filter)
next
  case False
  then have "\<forall>b \<in> set bs. b \<noteq> []" by (auto simp: hasBad_iff)
  then have "filter (\<lambda>b. b \<noteq> []) bs = bs" by (simp add: filter_id_conv)
  with False show ?thesis by (simp add: cleanupBookmarks_def)
qed

text \<open>
  Claim C9. For every list of bookmarks of the session configuration, the bookmarks of the
  new session are that list without its empty strings, the others in their order (which
  is what \<open>filter\<close> keeps).
\<close>

theorem new_session_bookmarks_cleaned:
  "bookmarks (newSessionWithContext cfg sessConfig)
     = filter (\<lambda>b. b \<noteq> '''') (sc_Bookmarks sessConfig)"
  by (simp add: newSessionWithContext_def Let_def cleanupBookmarks_filter)

section \<open>One pending work unit per session\<close>

text \<open>
  Claim C1. When the session has a pending explicit transaction, \<open>BeginTransaction\<close>,
  \<open>Run\<close>, \<open>ExecuteRead\<close> and \<open>ExecuteWrite\<close> return a \<open>UsageError\<close>, and the
  session (bookmarks, pending transactions, database name and all other fields) is
  unchanged; no call is made on the router, the pool or a connection either.
\<close>

theorem pending_explicit_tx_is_usage_error:
  "explicitTx s \<noteq> None \<Longrightarrow>
     BeginTransaction env ctx cs (s, w) =
       (Inl (UsageError ''Session already has a pending transaction''), s, w)
   \<and> Run env ctx cypher params cs (s, w) =
       (Inl (UsageError ''Trying to run auto-commit transaction while in explicit transaction''), s, w)
   \<and> ExecuteRead env fuel ctx work cs (s, w) =
       Some ((None, Some (UsageError ''Session already has a pending transaction'')), s, w)
   \<and> ExecuteWrite env fuel ctx work cs (s, w) =
       Some ((None, Some (UsageError ''Session already has a pending transaction'')), s, w)"
  by (simp add: BeginTransaction_def Run_def ExecuteRead_def ExecuteWrite_def runRetriable_def)

theorem pending_explicit_tx_is_usage_error_witness:
  "explicitTx session_in_tx \<noteq> None
   \<and> BeginTransaction env0 ctx0 [] (session_in_tx, world0) =
       (Inl (UsageError ''Session already has a pending transaction''), session_in_tx, world0)
   \<and> Run env0 ctx0 ''RETURN 1'' [] [] (session_in_tx, world0) =
       (Inl (UsageError ''Trying to run auto-commit transaction while in explicit transaction''),
        session_in_tx, world0)
   \<and> ExecuteRead env0 0 ctx0 work_ok [] (session_in_tx, world0) =
       Some ((None, Some (UsageError ''Session already has a pending transaction'')), session_in_tx, world0)
   \<and> ExecuteWrite env0 0 ctx0 work_ok [] (session_in_tx, world0) =
       Some ((None, Some (UsageError ''Session already has a pending transaction'')), session_in_tx, world0)"
proof -
  have h: "explicitTx session_in_tx \<noteq> None"
    by (simp add: session_in_tx_def)
  show ?thesis
    using h pending_explicit_tx_is_usage_error [OF h, of env0 ctx0 "[]" world0 "''RETURN 1''" "[]" 0 work_ok]
    by simp
qed

section \<open>The read-timeout hint\<close>

text \<open>
  Claim C8. After a successful connect, the read timeout of the connection is the hint
  \<open>connection.recv_timeout_seconds\<close> in seconds if and only if the hint is a positive
  integer; for every other shape of the hint (float, string, zero or negative integer,
  absent) the default \<open>-1\<close> is kept.
\<close>

theorem recv_timeout_hint:
  "(\<forall>n. hints readTimeoutHintName = Some (VInt n) \<and> 0 < n
        \<longrightarrow> connReadTimeout_after_hello hints = n * second)
   \<and> ((\<forall>n. hints readTimeoutHintName = Some (VInt n) \<longrightarrow> n \<le> 0)
        \<longrightarrow> connReadTimeout_after_hello hints = - 1)
   \<and> (connReadTimeout_after_hello hints \<noteq> - 1
        \<longleftrightarrow> (\<exists>n. hints readTimeoutHintName = Some (VInt n) \<and> 0 < n))"
  by (auto simp: connReadTimeout_after_hello_def initializeReadTimeoutHint_def second_def
           split: option.splits bolt_value.splits)

theorem recv_timeout_hint_witness:
  "connReadTimeout_after_hello [readTimeoutHintName \<mapsto> VInt 42] = 42 * second
   \<and> connReadTimeout_after_hello [readTimeoutHintName \<mapsto> VFloat 4.2] = - 1
   \<and> connReadTimeout_after_hello [readTimeoutHintName \<mapsto> VString ''42''] = - 1
   \<and> connReadTimeout_after_hello [readTimeoutHintName \<mapsto> VInt (- 42)] = - 1
   \<and> connReadTimeout_after_hello [readTimeoutHintName \<mapsto> VInt 0] = - 1
   \<and> connReadTimeout_after_hello Map.empty = - 1"
  using recv_timeout_hint [of "[readTimeoutHintName \<mapsto> VInt 42]"]
        recv_timeout_hint [of "[readTimeoutHintName \<mapsto> VFloat 4.2]"]
        recv_timeout_hint [of "[readTimeoutHintName \<mapsto> VString ''42'']"]
        recv_timeout_hint [of "[readTimeoutHintName \<mapsto> VInt (- 42)]"]
        recv_timeout_hint [of "[readTimeoutHintName \<mapsto> VInt 0]"]
        recv_timeout_hint [of "Map.empty"]
  by simp

section \<open>Resolution of the home database\<close>

lemma resolvesAtMostOnce_iff:
  "resolvesAtMostOnce (s, w) (s', w') \<longleftrightarrow>
     (\<exists>new. resolveCalls w' = resolveCalls w @ new \<and>
        (if \<not> resolveHomeDb s
         then \<not> resolveHomeDb s' \<and> databaseName s' = databaseName s \<and> new = []
         else if resolveHomeDb s'
         then databaseName s' = databaseName s \<and> list_all (\<lambda>c. resolvedTo c = None) new
         else new \<noteq> [] \<and> list_all (\<lambda>c. resolvedTo c = None) (butlast new)
              \<and> resolvedTo (last new) = Some (databaseName s')))"
  (is "?L \<longleftrightarrow> ?R")
proof
  assume l: ?L
  let ?old = "resolveCalls w"
  let ?new = "drop (length ?old) (resolveCalls w')"
  from l have t: "take (length ?old) (resolveCalls w') = ?old"
    unfolding resolvesAtMostOnce_def Let_def prod.case by (rule conjunct1)
  have "resolveCalls w' = take (length ?old) (resolveCalls w') @ ?new"
    by simp
  with t have "resolveCalls w' = ?old @ ?new" by simp
  moreover from l have
    "if \<not> resolveHomeDb s
     then \<not> resolveHomeDb s' \<and> databaseName s' = databaseName s \<and> ?new = []
     else if resolveHomeDb s'
     then databaseName s' = databaseName s \<and> list_all (\<lambda>c. resolvedTo c = None) ?new
     else ?new \<noteq> [] \<and> list_all (\<lambda>c. resolvedTo c = None) (butlast ?new)
          \<and> resolvedTo (last ?new) = Some (databaseName s')"
    unfolding resolvesAtMostOnce_def Let_def prod.case by (rule conjunct2)
  ultimately show ?R by blast
next
  assume ?R
  then obtain new where n: "resolveCalls w' = resolveCalls w @ new"
    and c: "if \<not> resolveHomeDb s
         then \<not> resolveHomeDb s' \<and> databaseName s' = databaseName s \<and> new = []
         else if resolveHomeDb s'
         then databaseName s' = databaseName s \<and> list_all (\<lambda>c. resolvedTo c = None) new
         else new \<noteq> [] \<and> list_all (\<lambda>c. resolvedTo c = None) (butlast new)
              \<and> resolvedTo (last new) = Some (databaseName s')"
    by blast
  from n have "take (length (resolveCalls w)) (resolveCalls w') = resolveCalls w"
    and "drop (length (resolveCalls w)) (resolveCalls w') = new"
    by simp_all
  with c show ?L
    by (simp add: resolvesAtMostOnce_def Let_def)
qed

lemma resolvesAtMostOnce_same:
  "resolveHomeDb s' = resolveHomeDb s \<Longrightarrow> databaseName s' = databaseName s \<Longrightarrow>
   resolveCalls w' = resolveCalls w \<Longrightarrow> resolvesAtMostOnce (s, w) (s', w')"
  by (simp add: resolvesAtMostOnce_iff)

lemma resolvesAtMostOnce_refl: "resolvesAtMostOnce sw sw"
  by (cases sw) (simp add: resolvesAtMostOnce_same)

lemma resolvesAtMostOnce_trans_pair:
  assumes a: "resolvesAtMostOnce (s, w) (s1, w1)" and b: "resolvesAtMostOnce (s1, w1) (s2, w2)"
  shows "resolvesAtMostOnce (s, w) (s2, w2)"
proof -
  from a obtain n1 where n1: "resolveCalls w1 = resolveCalls w @ n1"
    and c1: "if \<not> resolveHomeDb s
         then \<not> resolveHomeDb s1 \<and> databaseName s1 = databaseName s \<and> n1 = []
         else if resolveHomeDb s1
         then databaseName s1 = databaseName s \<and> list_all (\<lambda>c. resolvedTo c = None) n1
         else n1 \<noteq> [] \<and> list_all (\<lambda>c. resolvedTo c = None) (butlast n1)
              \<and> resolvedTo (last n1) = Some (databaseName s1)"
    unfolding resolvesAtMostOnce_iff by blast
  from b obtain n2 where n2: "resolveCalls w2 = resolveCalls w1 @ n2"
    and c2: "if \<not> resolveHomeDb s1
         then \<not> resolveHomeDb s2 \<and> databaseName s2 = databaseName s1 \<and> n2 = []
         else if resolveHomeDb s2
         then databaseName s2 = databaseName s1 \<and> list_all (\<lambda>c. resolvedTo c = None) n2
         else n2 \<noteq> [] \<and> list_all (\<lambda>c. resolvedTo c = None) (butlast n2)
              \<and> resolvedTo (last n2) = Some (databaseName s2)"
    unfolding resolvesAtMostOnce_iff by blast
  have n: "resolveCalls w2 = resolveCalls w @ (n1 @ n2)"
    using n1 n2 by simp
  have "if \<not> resolveHomeDb s
         then \<not> resolveHomeDb s2 \<and> databaseName s2 = databaseName s \<and> n1 @ n2 = []
         else if resolveHomeDb s2
         then databaseName s2 = databaseName s \<and> list_all (\<lambda>c. resolvedTo c = None) (n1 @ n2)
         else n1 @ n2 \<noteq> [] \<and> list_all (\<lambda>c. resolvedTo c = None) (butlast (n1 @ n2))
              \<and> resolvedTo (last (n1 @ n2)) = Some (databaseName s2)"
  proof (cases "resolveHomeDb s")
    case False
    with c1 c2 show ?thesis by simp
  next
    case True
    show ?thesis
    proof (cases "resolveHomeDb s1")
      case False
      with True c1 c2 show ?thesis by simp
    next
      case s1: True
      show ?thesis
      proof (cases "resolveHomeDb s2")
        case True
        with \<open>resolveHomeDb s\<close> s1 c1 c2 show ?thesis by simp
      next
        case False
        with \<open>resolveHomeDb s\<close> s1 c1 c2 show ?thesis
          by (simp add: butlast_append)
      qed
    qed
  qed
  with n show ?thesis
    unfolding resolvesAtMostOnce_iff by blast
qed

lemma resolvesAtMostOnce_trans:
  "resolvesAtMostOnce sw sw1 \<Longrightarrow> resolvesAtMostOnce sw1 sw2 \<Longrightarrow> resolvesAtMostOnce sw sw2"
  by (cases sw, cases sw1, cases sw2) (auto intro: resolvesAtMostOnce_trans_pair)

lemma resolveCalls_router_GetName:
  "router_GetNameOfDefaultDatabase env ctx bms user w = (r, w') \<Longrightarrow>
   resolveCalls w' = resolveCalls w @ [CGetNameOfDefaultDatabase ctx bms user r]"
  by (auto simp: router_GetNameOfDefaultDatabase_def resolveCalls_def split: prod.splits)

lemma resolveHomeDatabase_step:
  assumes "resolveHomeDatabase env ctx (s, w) = (r, s', w')"
  shows "resolvesAtMostOnce (s, w) (s', w') \<and> (r = None \<longrightarrow> \<not> resolveHomeDb s')"
proof (cases "resolveHomeDb s")
  case False
  with assms show ?thesis
    by (auto simp: resolveHomeDatabase_def intro: resolvesAtMostOnce_same)
next
  case True
  obtain g w1 where g: "router_GetNameOfDefaultDatabase env ctx (bookmarks s) (impersonatedUser s) w = (g, w1)"
    by (metis prod.collapse)
  note rc = resolveCalls_router_GetName [OF g]
  show ?thesis
  proof (cases g)
    case (Inl err)
    with assms True g have "s' = s" "w' = w1" "r = Some err"
      by (simp_all add: resolveHomeDatabase_def)
    with True rc Inl show ?thesis
      by (simp add: resolvesAtMostOnce_iff)
  next
    case (Inr db)
    with assms True g have "s' = s\<lparr>databaseName := db, resolveHomeDb := False\<rparr>" "w' = w1"
      by (simp_all add: resolveHomeDatabase_def)
    with True rc Inr show ?thesis
      by (simp add: resolvesAtMostOnce_iff)
  qed
qed

lemma getConnection_after_resolve:
  assumes "getConnection env ctx mode thr (s, w) = (r, s', w')"
  shows "\<exists>ctx' r1 w1. resolveHomeDatabase env ctx' (s, w) = (r1, s', w1)
           \<and> resolveCalls w' = resolveCalls w1 \<and> ((\<exists>c. r = Inr c) \<longrightarrow> r1 = None)"
proof -
  define ctx' where "ctx' = (if cfg_ConnectionAcquisitionTimeout (config s) > 0
                    then WithTimeout (e_now env (ext w)) ctx (cfg_ConnectionAcquisitionTimeout (config s))
                    else ctx)"
  obtain r1 s1 w1 where r: "resolveHomeDatabase env ctx' (s, w) = (r1, s1, w1)"
    by (metis prod.collapse)
  have "s' = s1 \<and> resolveCalls w' = resolveCalls w1 \<and> ((\<exists>c. r = Inr c) \<longrightarrow> r1 = None)"
    using assms r
    by (auto simp: getConnection_def Let_def pool_Borrow_def conn_SelectDatabase_def
            ctx'_def [symmetric]
          dest!: resolveCalls_logged getServers_resolveCalls
          split: prod.splits sum.splits if_splits option.splits)
  with r show ?thesis by blast
qed

lemma getConnection_step:
  assumes "getConnection env ctx mode thr (s, w) = (r, s', w')"
  shows "resolvesAtMostOnce (s, w) (s', w') \<and> ((\<exists>c. r = Inr c) \<longrightarrow> \<not> resolveHomeDb s')"
proof -
  from getConnection_after_resolve [OF assms] obtain ctx' r1 w1 where
    r: "resolveHomeDatabase env ctx' (s, w) = (r1, s', w1)"
    and w: "resolveCalls w' = resolveCalls w1" and ok: "(\<exists>c. r = Inr c) \<longrightarrow> r1 = None"
    by blast
  from resolveHomeDatabase_step [OF r]
  have a: "resolvesAtMostOnce (s, w) (s', w1)" and b: "r1 = None \<longrightarrow> \<not> resolveHomeDb s'"
    by simp_all
  have "resolvesAtMostOnce (s', w1) (s', w')"
    using w by (simp add: resolvesAtMostOnce_same)
  with a have "resolvesAtMostOnce (s, w) (s', w')"
    by (rule resolvesAtMostOnce_trans)
  with ok b show ?thesis by blast
qed


lemma finishPending_step:
  "finishPendingAutocommit env (s, w) = (s', w') \<Longrightarrow> resolvesAtMostOnce (s, w) (s', w')"
  by (auto dest!: finishPending_resolved intro: resolvesAtMostOnce_same)

lemma executeTransactionFunction_after_conn:
  assumes "executeTransactionFunction env ctx mode cfg work (st, s, w) = ((ta, res), st', s', w')"
  shows "\<exists>r1 s1 w1. getConnection env ctx mode (e_DefaultLivenessCheckThreshold env) (s, w) = (r1, s1, w1)
           \<and> resolveHomeDb s' = resolveHomeDb s1 \<and> databaseName s' = databaseName s1
           \<and> resolveCalls w' = resolveCalls w1 \<and> (\<not> ta \<longrightarrow> (\<exists>c. r1 = Inr c))"
proof -
  obtain r1 s1 w1 where
    g: "getConnection env ctx mode (e_DefaultLivenessCheckThreshold env) (s, w) = (r1, s1, w1)"
    by (metis prod.collapse)
  have "resolveHomeDb s' = resolveHomeDb s1 \<and> databaseName s' = databaseName s1
           \<and> resolveCalls w' = resolveCalls w1 \<and> (\<not> ta \<longrightarrow> (\<exists>c. r1 = Inr c))"
    using assms g
    by (auto simp: executeTransactionFunction_def Let_def
          dest!: retry_OnFailure_resolveCalls conn_TxBegin_resolveCalls
                 conn_TxCommit_resolveCalls user_work_resolveCalls
          split: prod.splits sum.splits option.splits)
  with g show ?thesis by blast
qed

lemma executeTransactionFunction_step:
  assumes "executeTransactionFunction env ctx mode cfg work (st, s, w) = ((ta, res), st', s', w')"
  shows "resolvesAtMostOnce (s, w) (s', w') \<and> (\<not> ta \<longrightarrow> \<not> resolveHomeDb s')"
proof -
  from executeTransactionFunction_after_conn [OF assms] obtain r1 s1 w1 where
    g: "getConnection env ctx mode (e_DefaultLivenessCheckThreshold env) (s, w) = (r1, s1, w1)"
    and e: "resolveHomeDb s' = resolveHomeDb s1" "databaseName s' = databaseName s1"
      "resolveCalls w' = resolveCalls w1"
    and ok: "\<not> ta \<longrightarrow> (\<exists>c. r1 = Inr c)"
    by blast
  from getConnection_step [OF g]
  have a: "resolvesAtMostOnce (s, w) (s1, w1)" and b: "(\<exists>c. r1 = Inr c) \<longrightarrow> \<not> resolveHomeDb s1"
    by simp_all
  from e have "resolvesAtMostOnce (s1, w1) (s', w')"
    by (simp add: resolvesAtMostOnce_same)
  with a have "resolvesAtMostOnce (s, w) (s', w')"
    by (rule resolvesAtMostOnce_trans)
  with ok b e show ?thesis by blast
qed

lemma retry_loop_step:
  "retry_loop n env ctx mode cfg work (st, s, w) = Some (r, st', s', w') \<Longrightarrow>
   resolvesAtMostOnce (s, w) (s', w') \<and> (r \<noteq> None \<longrightarrow> \<not> resolveHomeDb s')"
proof (induction n arbitrary: st s w)
  case 0
  then show ?case by simp
next
  case (Suc n)
  obtain b st1 w1 where c: "retry_Continue env (st, w) = (b, st1, w1)"
    by (metis prod.collapse)
  then have "resolveCalls w1 = resolveCalls w"
    by (rule retry_Continue_resolveCalls)
  then have w1: "resolvesAtMostOnce (s, w) (s, w1)"
    by (simp add: resolvesAtMostOnce_same)
  show ?case
  proof (cases b)
    case False
    with Suc.prems c w1 show ?thesis by auto
  next
    case True
    obtain ta res st2 s2 w2 where
      e: "executeTransactionFunction env ctx mode cfg work (st1, s, w1) = ((ta, res), st2, s2, w2)"
      by (metis prod.collapse)
    from executeTransactionFunction_step [OF e]
    have s2: "resolvesAtMostOnce (s, w1) (s2, w2)" "\<not> ta \<longrightarrow> \<not> resolveHomeDb s2"
      by simp_all
    from w1 s2(1) have ws2: "resolvesAtMostOnce (s, w) (s2, w2)"
      by (rule resolvesAtMostOnce_trans)
    show ?thesis
    proof (cases ta)
      case True
      with Suc.prems c e \<open>b\<close> have "retry_loop n env ctx mode cfg work (st2, s2, w2) = Some (r, st', s', w')"
        by simp
      from Suc.IH [OF this] ws2 show ?thesis
        by (blast intro: resolvesAtMostOnce_trans)
    next
      case False
      with Suc.prems c e \<open>b\<close> s2 ws2 show ?thesis by auto
    qed
  qed
qed

lemma runRetriable_step:
  assumes "runRetriable env n ctx mode work cs (s, w) = Some ((res, err), s', w')"
  shows "resolvesAtMostOnce (s, w) (s', w')
         \<and> (explicitTx s = None \<and> res \<noteq> None \<longrightarrow> \<not> resolveHomeDb s')"
proof (cases "explicitTx s \<noteq> None")
  case True
  with assms show ?thesis
    by (auto simp: runRetriable_def resolvesAtMostOnce_refl)
next
  case False
  obtain s1 w1 where f: "finishPendingAutocommit env (s, w) = (s1, w1)"
    by (metis prod.collapse)
  note a = finishPending_step [OF f]
  let ?cfg = "applyConfigurers cs defaultTransactionConfig"
  show ?thesis
  proof (cases "validateTransactionConfig ?cfg")
    case (Some e)
    with assms False f a show ?thesis
      by (auto simp: runRetriable_def Let_def)
  next
    case None
    with assms False f obtain r st2 where
      l: "retry_loop n env ctx mode ?cfg work
            (\<lparr>Errs = [], Causes = [],
              MaxTransactionRetryTime = cfg_MaxTransactionRetryTime (config s1),
              Throttle = throttleTime s1,
              MaxDeadConnections = cfg_MaxConnectionPoolSize (config s1),
              DatabaseName = databaseName s1, LastErrWasRetryable = False,
              LastErr = None, start = None\<rparr>, s1, w1) = Some (r, st2, s', w')"
      and r: "res \<noteq> None \<longrightarrow> r \<noteq> None"
      by (auto simp: runRetriable_def Let_def split: option.splits)
    from retry_loop_step [OF l] a r show ?thesis
      by (blast intro: resolvesAtMostOnce_trans)
  qed
qed

lemma BeginTransaction_step:
  assumes "BeginTransaction env ctx cs (s, w) = (r, s', w')"
  shows "resolvesAtMostOnce (s, w) (s', w') \<and> ((\<exists>tx. r = Inr tx) \<longrightarrow> \<not> resolveHomeDb s')"
proof (cases "explicitTx s \<noteq> None")
  case True
  with assms show ?thesis
    by (auto simp: BeginTransaction_def resolvesAtMostOnce_refl)
next
  case False
  obtain s1 w1 where f: "finishPendingAutocommit env (s, w) = (s1, w1)"
    by (metis prod.collapse)
  note a = finishPending_step [OF f]
  let ?cfg = "applyConfigurers cs defaultTransactionConfig"
  show ?thesis
  proof (cases "validateTransactionConfig ?cfg")
    case (Some e)
    with assms False f a show ?thesis
      by (auto simp: BeginTransaction_def Let_def)
  next
    case None
    obtain r2 s2 w2 where
      g: "getConnection env ctx (defaultMode s1) (e_DefaultLivenessCheckThreshold env) (s1, w1) = (r2, s2, w2)"
      by (metis prod.collapse)
    from getConnection_step [OF g]
    have b: "resolvesAtMostOnce (s1, w1) (s2, w2)" "(\<exists>c. r2 = Inr c) \<longrightarrow> \<not> resolveHomeDb s2"
      by simp_all
    have "resolveHomeDb s' = resolveHomeDb s2 \<and> databaseName s' = databaseName s2
          \<and> resolveCalls w' = resolveCalls w2 \<and> ((\<exists>tx. r = Inr tx) \<longrightarrow> (\<exists>c. r2 = Inr c))"
      using assms False f None g
      by (auto simp: BeginTransaction_def Let_def dest!: conn_TxBegin_resolveCalls
            split: prod.splits sum.splits)
    then have c: "resolvesAtMostOnce (s2, w2) (s', w')"
      and d: "(\<exists>tx. r = Inr tx) \<longrightarrow> \<not> resolveHomeDb s'"
      using b(2) by (auto intro: resolvesAtMostOnce_same)
    from a b(1) c have "resolvesAtMostOnce (s, w) (s', w')"
      by (blast intro: resolvesAtMostOnce_trans)
    with d show ?thesis by blast
  qed
qed

lemma Run_step:
  assumes "Run env ctx cypher params cs (s, w) = (r, s', w')"
  shows "resolvesAtMostOnce (s, w) (s', w') \<and> ((\<exists>res. r = Inr res) \<longrightarrow> \<not> resolveHomeDb s')"
proof (cases "explicitTx s \<noteq> None")
  case True
  with assms show ?thesis
    by (auto simp: Run_def resolvesAtMostOnce_refl)
next
  case False
  obtain s1 w1 where f: "finishPendingAutocommit env (s, w) = (s1, w1)"
    by (metis prod.collapse)
  note a = finishPending_step [OF f]
  let ?cfg = "applyConfigurers cs defaultTransactionConfig"
  show ?thesis
  proof (cases "validateTransactionConfig ?cfg")
    case (Some e)
    with assms False f a show ?thesis
      by (auto simp: Run_def Let_def)
  next
    case None
    obtain r2 s2 w2 where
      g: "getConnection env ctx (defaultMode s1) (e_DefaultLivenessCheckThreshold env) (s1, w1) = (r2, s2, w2)"
      by (metis prod.collapse)
    from getConnection_step [OF g]
    have b: "resolvesAtMostOnce (s1, w1) (s2, w2)" "(\<exists>c. r2 = Inr c) \<longrightarrow> \<not> resolveHomeDb s2"
      by simp_all
    have "resolveHomeDb s' = resolveHomeDb s2 \<and> databaseName s' = databaseName s2
          \<and> resolveCalls w' = resolveCalls w2 \<and> ((\<exists>res. r = Inr res) \<longrightarrow> (\<exists>c. r2 = Inr c))"
      using assms False f None g
      by (auto simp: Run_def Let_def dest!: conn_Run_resolveCalls
            split: prod.splits sum.splits)
    then have c: "resolvesAtMostOnce (s2, w2) (s', w')"
      and d: "(\<exists>res. r = Inr res) \<longrightarrow> \<not> resolveHomeDb s'"
      using b(2) by (auto intro: resolvesAtMostOnce_same)
    from a b(1) c have "resolvesAtMostOnce (s, w) (s', w')"
      by (blast intro: resolvesAtMostOnce_trans)
    with d show ?thesis by blast
  qed
qed

lemma getServerInfo_step:
  assumes "getServerInfo env ctx (s, w) = (r, s', w')"
  shows "resolvesAtMostOnce (s, w) (s', w') \<and> ((\<exists>i. r = Inr i) \<longrightarrow> \<not> resolveHomeDb s')"
proof -
  obtain r1 s1 w1 where h: "resolveHomeDatabase env ctx (s, w) = (r1, s1, w1)"
    by (metis prod.collapse)
  from resolveHomeDatabase_step [OF h]
  have a: "resolvesAtMostOnce (s, w) (s1, w1)" "r1 = None \<longrightarrow> \<not> resolveHomeDb s1"
    by simp_all
  have "s' = s1 \<and> resolveCalls w' = resolveCalls w1 \<and> ((\<exists>i. r = Inr i) \<longrightarrow> r1 = None)"
    using assms h
    by (auto simp: getServerInfo_def pool_Borrow_def
          dest!: resolveCalls_logged getServers_resolveCalls
          split: prod.splits sum.splits option.splits)
  then have "resolvesAtMostOnce (s1, w1) (s', w')" and "(\<exists>i. r = Inr i) \<longrightarrow> \<not> resolveHomeDb s'"
    using a(2) by (auto intro: resolvesAtMostOnce_same)
  with a(1) show ?thesis
    by (blast intro: resolvesAtMostOnce_trans)
qed

lemma LastBookmarks_step:
  "LastBookmarks env (s, w) = (r, s', w') \<Longrightarrow> resolvesAtMostOnce (s, w) (s', w')"
  by (auto dest!: LastBookmarks_resolved intro: resolvesAtMostOnce_same)

text \<open>
  Claim C7. A session created without a database name is unresolved, one created with a
  name is resolved from the start. Every operation of the session is a step that
  \<open>resolvesAtMostOnce\<close>: a resolved session stays resolved with the same name and
  does not call \<open>GetNameOfDefaultDatabase\<close>; an unresolved session that becomes
  resolved has made exactly one successful call, the last one, and has cached its result
  as the database name. An operation that succeeds leaves the session resolved. Such steps
  compose, so the same holds for every sequence of operations.
\<close>

theorem home_database_resolved_once:
  "(resolveHomeDb (newSessionWithContext cfg sessConfig) \<longleftrightarrow> sc_DatabaseName sessConfig = '''')
   \<and> databaseName (newSessionWithContext cfg sessConfig) = sc_DatabaseName sessConfig
   \<and> (BeginTransaction env ctx cs sw = (rb, swb) \<longrightarrow>
        resolvesAtMostOnce sw swb \<and> ((\<exists>tx. rb = Inr tx) \<longrightarrow> \<not> resolveHomeDb (fst swb)))
   \<and> (Run env ctx cypher params cs sw = (rr, swr) \<longrightarrow>
        resolvesAtMostOnce sw swr \<and> ((\<exists>res. rr = Inr res) \<longrightarrow> \<not> resolveHomeDb (fst swr)))
   \<and> (ExecuteRead env fuel ctx work cs sw = Some ((res, err), swe) \<longrightarrow>
        resolvesAtMostOnce sw swe
        \<and> (explicitTx (fst sw) = None \<and> res \<noteq> None \<longrightarrow> \<not> resolveHomeDb (fst swe)))
   \<and> (ExecuteWrite env fuel ctx work cs sw = Some ((res, err), swe) \<longrightarrow>
        resolvesAtMostOnce sw swe
        \<and> (explicitTx (fst sw) = None \<and> res \<noteq> None \<longrightarrow> \<not> resolveHomeDb (fst swe)))
   \<and> (getServerInfo env ctx sw = (ri, swi) \<longrightarrow>
        resolvesAtMostOnce sw swi \<and> ((\<exists>i. ri = Inr i) \<longrightarrow> \<not> resolveHomeDb (fst swi)))
   \<and> resolvesAtMostOnce sw (snd (LastBookmarks env sw))
   \<and> (resolvesAtMostOnce sw sw1 \<and> resolvesAtMostOnce sw1 sw2 \<longrightarrow> resolvesAtMostOnce sw sw2)"
proof -
  obtain s w where sw: "sw = (s, w)" by (cases sw)
  have 1: "resolveHomeDb (newSessionWithContext cfg sessConfig) \<longleftrightarrow> sc_DatabaseName sessConfig = ''''"
    by (simp add: newSessionWithContext_def Let_def)
  have 2: "databaseName (newSessionWithContext cfg sessConfig) = sc_DatabaseName sessConfig"
    by (simp add: newSessionWithContext_def Let_def)
  have 3: "BeginTransaction env ctx cs sw = (rb, swb) \<longrightarrow>
        resolvesAtMostOnce sw swb \<and> ((\<exists>tx. rb = Inr tx) \<longrightarrow> \<not> resolveHomeDb (fst swb))"
    using BeginTransaction_step [of env ctx cs s w rb "fst swb" "snd swb"] sw by simp
  have 4: "Run env ctx cypher params cs sw = (rr, swr) \<longrightarrow>
        resolvesAtMostOnce sw swr \<and> ((\<exists>res. rr = Inr res) \<longrightarrow> \<not> resolveHomeDb (fst swr))"
    using Run_step [of env ctx cypher params cs s w rr "fst swr" "snd swr"] sw by simp
  have 5: "runRetriable env fuel ctx mode work cs sw = Some ((res, err), swe) \<longrightarrow>
        resolvesAtMostOnce sw swe
        \<and> (explicitTx (fst sw) = None \<and> res \<noteq> None \<longrightarrow> \<not> resolveHomeDb (fst swe))" for mode
    using runRetriable_step [of env fuel ctx mode work cs s w res err "fst swe" "snd swe"] sw by simp
  have 6: "getServerInfo env ctx sw = (ri, swi) \<longrightarrow>
        resolvesAtMostOnce sw swi \<and> ((\<exists>i. ri = Inr i) \<longrightarrow> \<not> resolveHomeDb (fst swi))"
    using getServerInfo_step [of env ctx s w ri "fst swi" "snd swi"] sw by simp
  have 7: "resolvesAtMostOnce sw (snd (LastBookmarks env sw))"
    using LastBookmarks_step [of env s w "fst (LastBookmarks env sw)"
        "fst (snd (LastBookmarks env sw))" "snd (snd (LastBookmarks env sw))"] sw by simp
  have 8: "resolvesAtMostOnce sw sw1 \<and> resolvesAtMostOnce sw1 sw2 \<longrightarrow> resolvesAtMostOnce sw sw2"
    by (blast intro: resolvesAtMostOnce_trans)
  from 1 2 3 4 5 [of ReadMode] 5 [of WriteMode] 6 7 8 show ?thesis
    unfolding ExecuteRead_def ExecuteWrite_def by blast
qed


theorem home_database_resolved_once_witness:
  "resolveHomeDb session0
   \<and> Run env0 ctx0 ''RETURN 1'' [] [] (session0, world0) = (Inr (at_res autocommit0), session1, world1)
   \<and> resolvesAtMostOnce (session0, world0) (session1, world1)
   \<and> \<not> resolveHomeDb session1
   \<and> databaseName session1 = ''neo4j''
   \<and> ExecuteWrite env0 3 ctx0 work_ok [] (session1, world1) = Some ((Some 42, None), session2, world2)
   \<and> resolvesAtMostOnce (session1, world1) (session2, world2)
   \<and> resolveCalls world2
      = [CGetNameOfDefaultDatabase \<lparr>deadline = Some 60000000000\<rparr> [''a'', ''b''] [] (Inr ''neo4j'')]"
proof -
  have r: "Run env0 ctx0 ''RETURN 1'' [] [] (session0, world0) = (Inr (at_res autocommit0), session1, world1)"
    by code_simp
  have e: "ExecuteWrite env0 3 ctx0 work_ok [] (session1, world1) = Some ((Some 42, None), session2, world2)"
    by code_simp
  have a: "resolveHomeDb session0" by code_simp
  have d: "databaseName session1 = ''neo4j''" by code_simp
  have c: "resolveCalls world2
      = [CGetNameOfDefaultDatabase \<lparr>deadline = Some 60000000000\<rparr> [''a'', ''b''] [] (Inr ''neo4j'')]"
    by code_simp
  from r home_database_resolved_once [where env = env0 and ctx = ctx0 and cs = "[]"
      and sw = "(session0, world0)" and cypher = "''RETURN 1''" and params = "[]"
      and rr = "Inr (at_res autocommit0)" and swr = "(session1, world1)"
      and cfg = cfg0 and sessConfig = sessConfig0 and rb = "Inl (UsageError [])"
      and swb = "(session0, world0)" and fuel = 3 and work = work_ok and res = None
      and err = None and swe = "(session0, world0)" and ri = "Inl (UsageError [])"
      and swi = "(session0, world0)" and ?sw1.0 = "(session0, world0)"
      and ?sw2.0 = "(session0, world0)"]
  have 1: "resolvesAtMostOnce (session0, world0) (session1, world1) \<and> \<not> resolveHomeDb session1"
    by simp
  from e home_database_resolved_once [where env = env0 and ctx = ctx0 and cs = "[]"
      and sw = "(session1, world1)" and fuel = 3 and work = work_ok
      and res = "Some 42" and err = None and swe = "(session2, world2)"
      and cypher = "''RETURN 1''" and params = "[]"
      and rr = "Inl (UsageError [])" and swr = "(session1, world1)"
      and cfg = cfg0 and sessConfig = sessConfig0 and rb = "Inl (UsageError [])"
      and swb = "(session0, world0)" and ri = "Inl (UsageError [])"
      and swi = "(session0, world0)" and ?sw1.0 = "(session0, world0)"
      and ?sw2.0 = "(session0, world0)"]
  have 2: "resolvesAtMostOnce (session1, world1) (session2, world2)"
    by simp
  from a r 1 d e 2 c show ?thesis by simp
qed

section \<open>Validation of the transaction configuration\<close>

text \<open>
  Claim C6. The validation of the transaction configuration returns a \<open>UsageError\<close> if
  and only if the timeout is negative and is not the sentinel \<open>math.MinInt\<close>; the
  sentinel and every timeout \<open>\<ge> 0\<close> are accepted. \<open>BeginTransaction\<close>, \<open>Run\<close>,
  \<open>ExecuteRead\<close> and \<open>ExecuteWrite\<close> validate the configuration the configurers
  produce: without a pending explicit transaction, each of them returns that error for a
  negative timeout other than the sentinel.
\<close>

theorem transaction_timeout_validation:
  "((\<exists>m. validateTransactionConfig cfg = Some (UsageError m))
       \<longleftrightarrow> Timeout cfg < 0 \<and> Timeout cfg \<noteq> MinInt)
   \<and> (validateTransactionConfig cfg = None \<longleftrightarrow> Timeout cfg = MinInt \<or> 0 \<le> Timeout cfg)
   \<and> (explicitTx s = None \<and> cfg = applyConfigurers cs defaultTransactionConfig
        \<and> Timeout cfg < 0 \<and> Timeout cfg \<noteq> MinInt \<longrightarrow>
          fst (BeginTransaction env ctx cs (s, w)) =
            Inl (UsageError (''Negative transaction timeouts are not allowed. Given: '' @ fmt_d (Timeout cfg)))
        \<and> fst (Run env ctx cypher params cs (s, w)) =
            Inl (UsageError (''Negative transaction timeouts are not allowed. Given: '' @ fmt_d (Timeout cfg)))
        \<and> map_option fst (ExecuteRead env fuel ctx work cs (s, w)) =
            Some (None, Some (UsageError (''Negative transaction timeouts are not allowed. Given: '' @ fmt_d (Timeout cfg))))
        \<and> map_option fst (ExecuteWrite env fuel ctx work cs (s, w)) =
            Some (None, Some (UsageError (''Negative transaction timeouts are not allowed. Given: '' @ fmt_d (Timeout cfg)))))"
proof -
  have 1: "(\<exists>m. validateTransactionConfig cfg = Some (UsageError m))
       \<longleftrightarrow> Timeout cfg < 0 \<and> Timeout cfg \<noteq> MinInt"
    by (auto simp: validateTransactionConfig_def)
  have 2: "validateTransactionConfig cfg = None \<longleftrightarrow> Timeout cfg = MinInt \<or> 0 \<le> Timeout cfg"
    by (auto simp: validateTransactionConfig_def)
  have 3: "fst (BeginTransaction env ctx cs (s, w)) =
            Inl (UsageError (''Negative transaction timeouts are not allowed. Given: '' @ fmt_d (Timeout cfg)))"
    if "explicitTx s = None" "cfg = applyConfigurers cs defaultTransactionConfig"
      "Timeout cfg < 0" "Timeout cfg \<noteq> MinInt"
    using that
    by (simp add: BeginTransaction_def validateTransactionConfig_def Let_def split: prod.splits)
  have 4: "fst (Run env ctx cypher params cs (s, w)) =
            Inl (UsageError (''Negative transaction timeouts are not allowed. Given: '' @ fmt_d (Timeout cfg)))"
    if "explicitTx s = None" "cfg = applyConfigurers cs defaultTransactionConfig"
      "Timeout cfg < 0" "Timeout cfg \<noteq> MinInt"
    using that
    by (simp add: Run_def validateTransactionConfig_def Let_def split: prod.splits)
  have 5: "map_option fst (runRetriable env fuel ctx mode work cs (s, w)) =
            Some (None, Some (UsageError (''Negative transaction timeouts are not allowed. Given: '' @ fmt_d (Timeout cfg))))"
    if "explicitTx s = None" "cfg = applyConfigurers cs defaultTransactionConfig"
      "Timeout cfg < 0" "Timeout cfg \<noteq> MinInt" for mode
    using that
    by (simp add: runRetriable_def validateTransactionConfig_def Let_def split: prod.splits)
  from 1 2 3 4 5 [of ReadMode] 5 [of WriteMode] show ?thesis
    unfolding ExecuteRead_def ExecuteWrite_def by blast
qed

theorem transaction_timeout_validation_witness:
  "explicitTx session0 = None
   \<and> Timeout (applyConfigurers [withTimeout (- 5)] defaultTransactionConfig) = - 5
   \<and> fst (BeginTransaction env0 ctx0 [withTimeout (- 5)] (session0, world0)) =
        Inl (UsageError ''Negative transaction timeouts are not allowed. Given: -5'')
   \<and> fst (Run env0 ctx0 ''RETURN 1'' [] [withTimeout (- 5)] (session0, world0)) =
        Inl (UsageError ''Negative transaction timeouts are not allowed. Given: -5'')
   \<and> map_option fst (ExecuteRead env0 3 ctx0 work_ok [withTimeout (- 5)] (session0, world0)) =
        Some (None, Some (UsageError ''Negative transaction timeouts are not allowed. Given: -5''))
   \<and> map_option fst (ExecuteWrite env0 3 ctx0 work_ok [withTimeout (- 5)] (session0, world0)) =
        Some (None, Some (UsageError ''Negative transaction timeouts are not allowed. Given: -5''))
   \<and> validateTransactionConfig (withTimeout 0 defaultTransactionConfig) = None
   \<and> validateTransactionConfig defaultTransactionConfig = None
   \<and> \<not> isl (fst (BeginTransaction env0 ctx0 [withTimeout 0] (session0, world0)))
   \<and> \<not> isl (fst (BeginTransaction env0 ctx0 [] (session0, world0)))"
proof -
  let ?cfg = "applyConfigurers [withTimeout (- 5)] defaultTransactionConfig"
  have a: "explicitTx session0 = None" by code_simp
  have t: "Timeout ?cfg = - 5" by code_simp
  have m: "fmt_d (- 5) = ''-5''" by code_simp
  have n: "- 5 \<noteq> MinInt" by code_simp
  have z: "Timeout (withTimeout 0 defaultTransactionConfig) = 0"
    "Timeout defaultTransactionConfig = MinInt" by code_simp+
  have b: "\<not> isl (fst (BeginTransaction env0 ctx0 [withTimeout 0] (session0, world0)))"
    "\<not> isl (fst (BeginTransaction env0 ctx0 [] (session0, world0)))" by code_simp+
  note inst = transaction_timeout_validation [where env = env0 and ctx = ctx0
      and s = session0 and w = world0 and cypher = "''RETURN 1''" and params = "[]"
      and fuel = 3 and work = work_ok]
  from a t m n inst [where cfg = ?cfg and cs = "[withTimeout (- 5)]"]
       inst [where cfg = "withTimeout 0 defaultTransactionConfig" and cs = "[]"]
       inst [where cfg = "defaultTransactionConfig" and cs = "[]"] z b
  show ?thesis by simp
qed

section \<open>Bookmark propagation\<close>

lemma retrieveBookmarks_bookmarks:
  "bookmarks (retrieveBookmarks env (Some c) w s)
     = (if conn_Bookmark env c w \<noteq> '''' then [conn_Bookmark env c w] else bookmarks s)"
  by (simp add: retrieveBookmarks_def Let_def)

lemma getConnection_session:
  "getConnection env ctx mode thr (s, w) = (r, s', w') \<Longrightarrow>
   s' = s \<or> (\<exists>db. s' = s\<lparr>databaseName := db, resolveHomeDb := False\<rparr>)"
  by (auto simp: getConnection_def resolveHomeDatabase_def Let_def
        split: prod.splits sum.splits if_splits option.splits)

lemma getConnection_bookmarks:
  "getConnection env ctx mode thr (s, w) = (r, s', w') \<Longrightarrow>
   bookmarks s' = bookmarks s \<and> explicitTx s' = explicitTx s \<and> autocommitTx s' = autocommitTx s"
  by (auto dest!: getConnection_session)

lemma executeTransactionFunction_commit:
  assumes "executeTransactionFunction env ctx mode cfg work (st, s, w) = ((False, r), st', s', w')"
  shows "\<exists>c h w4 pre. w' = pool_Return env c w4 \<and> calls w4 = pre @ [CTxCommit c h]
           \<and> bookmarks s' = (if conn_Bookmark env c w4 \<noteq> '''' then [conn_Bookmark env c w4]
                              else bookmarks s)"
proof -
  obtain r1 s1 w1 where
    g: "getConnection env ctx mode (e_DefaultLivenessCheckThreshold env) (s, w) = (r1, s1, w1)"
    by (metis prod.collapse)
  from getConnection_bookmarks [OF g] have b: "bookmarks s1 = bookmarks s" by simp
  from assms g obtain c h w3 w4 where
    "conn_TxCommit env c h w3 = (None, w4)" "w' = pool_Return env c w4"
    "s' = retrieveBookmarks env (Some c) w4 s1"
    by (auto simp: executeTransactionFunction_def Let_def
          split: prod.splits sum.splits option.splits)
  moreover from this(1) have "calls w4 = calls w3 @ [CTxCommit c h]"
    by (auto simp: conn_TxCommit_def logged_def split: prod.splits)
  ultimately show ?thesis
    using b by (auto simp: retrieveBookmarks_bookmarks)
qed

text \<open>
  Claim C2. \<open>retrieveBookmarks\<close> leaves the session as it is for a nil connection and
  for a connection whose bookmark is empty, and replaces the bookmarks by the singleton
  list of a non-empty bookmark. It runs on every return of a connection that ends a
  transaction: in the \<open>onClosed\<close> closures of the explicit and of the auto-commit
  transaction, which then return the connection to the pool, and after the commit of a
  managed transaction, with the bookmark the connection has after \<open>TxCommit\<close> and before
  its return to the pool.
\<close>

theorem bookmarks_replaced_on_connection_return:
  "retrieveBookmarks env None w s = s
   \<and> retrieveBookmarks env (Some c) w s
       = (if conn_Bookmark env c w \<noteq> '''' then s\<lparr>bookmarks := [conn_Bookmark env c w]\<rparr> else s)
   \<and> explicitTransaction_onClosed env etx (s, w)
       = ((retrieveBookmarks env (Some (et_conn etx)) w s)\<lparr>explicitTx := None\<rparr>,
          pool_Return env (et_conn etx) w)
   \<and> autocommitTransaction_onClosed env atx (s, w)
       = ((retrieveBookmarks env (Some (at_conn atx)) w s)\<lparr>autocommitTx := None\<rparr>,
          pool_Return env (at_conn atx) w)
   \<and> bookmarks (fst (explicitTransaction_onClosed env etx (s, w)))
       = (if conn_Bookmark env (et_conn etx) w \<noteq> '''' then [conn_Bookmark env (et_conn etx) w]
          else bookmarks s)
   \<and> bookmarks (fst (autocommitTransaction_onClosed env atx (s, w)))
       = (if conn_Bookmark env (at_conn atx) w \<noteq> '''' then [conn_Bookmark env (at_conn atx) w]
          else bookmarks s)
   \<and> (executeTransactionFunction env ctx mode cfg work (st, s, w) = ((False, r), st', s', w') \<longrightarrow>
        (\<exists>cn h w4 pre. w' = pool_Return env cn w4 \<and> calls w4 = pre @ [CTxCommit cn h]
           \<and> bookmarks s' = (if conn_Bookmark env cn w4 \<noteq> '''' then [conn_Bookmark env cn w4]
                              else bookmarks s)))"
proof -
  have 1: "retrieveBookmarks env None w s = s"
    by (simp add: retrieveBookmarks_def)
  have 2: "retrieveBookmarks env (Some c) w s
       = (if conn_Bookmark env c w \<noteq> '''' then s\<lparr>bookmarks := [conn_Bookmark env c w]\<rparr> else s)"
    by (simp add: retrieveBookmarks_def Let_def)
  have 3: "explicitTransaction_onClosed env etx (s, w)
       = ((retrieveBookmarks env (Some (et_conn etx)) w s)\<lparr>explicitTx := None\<rparr>,
          pool_Return env (et_conn etx) w)"
    by (simp add: explicitTransaction_onClosed_def Let_def)
  have 4: "autocommitTransaction_onClosed env atx (s, w)
       = ((retrieveBookmarks env (Some (at_conn atx)) w s)\<lparr>autocommitTx := None\<rparr>,
          pool_Return env (at_conn atx) w)"
    by (simp add: autocommitTransaction_onClosed_def Let_def)
  have 5: "bookmarks (fst (explicitTransaction_onClosed env etx (s, w)))
       = (if conn_Bookmark env (et_conn etx) w \<noteq> '''' then [conn_Bookmark env (et_conn etx) w]
          else bookmarks s)"
    by (simp add: 3 retrieveBookmarks_bookmarks)
  have 6: "bookmarks (fst (autocommitTransaction_onClosed env atx (s, w)))
       = (if conn_Bookmark env (at_conn atx) w \<noteq> '''' then [conn_Bookmark env (at_conn atx) w]
          else bookmarks s)"
    by (simp add: 4 retrieveBookmarks_bookmarks)
  have 7: "executeTransactionFunction env ctx mode cfg work (st, s, w) = ((False, r), st', s', w') \<longrightarrow>
        (\<exists>cn h w4 pre. w' = pool_Return env cn w4 \<and> calls w4 = pre @ [CTxCommit cn h]
           \<and> bookmarks s' = (if conn_Bookmark env cn w4 \<noteq> '''' then [conn_Bookmark env cn w4]
                              else bookmarks s))"
    by (blast dest: executeTransactionFunction_commit)
  from 1 2 3 4 5 6 7 show ?thesis by (intro conjI)
qed

theorem bookmarks_replaced_on_connection_return_witness:
  "bookmarks session0 = [''a'', ''b'']
   \<and> executeTransactionFunction env0 ctx0 WriteMode defaultTransactionConfig work_ok
        (retry0, session0, world0) = ((False, Some 42), retry0, session2, world3)
   \<and> (\<exists>cn h w4 pre. world3 = pool_Return env0 cn w4 \<and> calls w4 = pre @ [CTxCommit cn h]
          \<and> bookmarks session2 = (if conn_Bookmark env0 cn w4 \<noteq> '''' then [conn_Bookmark env0 cn w4]
                                    else bookmarks session0))
   \<and> bookmarks session2 = [''bm'']
   \<and> bookmarks (fst (explicitTransaction_onClosed env0 \<lparr>et_conn = 7, et_fetchSize = 1000, et_txHandle = 1\<rparr>
        (session_in_tx, world0))) = [''bm'']
   \<and> bookmarks (fst (autocommitTransaction_onClosed env0 autocommit0 (session1, world1))) = [''bm'']"
proof -
  have e: "executeTransactionFunction env0 ctx0 WriteMode defaultTransactionConfig work_ok
        (retry0, session0, world0) = ((False, Some 42), retry0, session2, world3)"
    by code_simp
  have b: "bookmarks session0 = [''a'', ''b'']" "bookmarks session2 = [''bm'']"
    by code_simp+
  have k: "conn_Bookmark env0 7 w = ''bm''" for w
    by (simp add: conn_Bookmark_def env0_def)
  note inst = bookmarks_replaced_on_connection_return [where env = env0 and ctx = ctx0
      and mode = WriteMode and cfg = defaultTransactionConfig and work = work_ok
      and st = retry0 and r = "Some 42" and st' = retry0 and s' = session2 and w' = world3
      and c = 7 and etx = "\<lparr>et_conn = 7, et_fetchSize = 1000, et_txHandle = 1\<rparr>"
      and atx = autocommit0]
  from e inst [where s = session0 and w = world0]
  have 1: "\<exists>cn h w4 pre. world3 = pool_Return env0 cn w4 \<and> calls w4 = pre @ [CTxCommit cn h]
          \<and> bookmarks session2 = (if conn_Bookmark env0 cn w4 \<noteq> '''' then [conn_Bookmark env0 cn w4]
                                    else bookmarks session0)"
    by simp
  from inst [where s = session_in_tx and w = world0] k
  have 2: "bookmarks (fst (explicitTransaction_onClosed env0 \<lparr>et_conn = 7, et_fetchSize = 1000, et_txHandle = 1\<rparr>
        (session_in_tx, world0))) = [''bm'']"
    by simp
  from inst [where s = session1 and w = world1] k
  have 3: "bookmarks (fst (autocommitTransaction_onClosed env0 autocommit0 (session1, world1))) = [''bm'']"
    by (simp add: autocommit0_def)
  from b e 1 2 3 show ?thesis by simp
qed

section \<open>A pending auto-commit transaction is finished before the validation\<close>

lemma finishPending_pending:
  "autocommitTx s = Some tx \<Longrightarrow>
   finishPendingAutocommit env (s, w) = autocommitTransaction_done env tx (s, w)"
  by (simp add: finishPendingAutocommit_def)

lemma done_effect:
  "autocommitTransaction_done env tx (s, w) = (s', w') \<Longrightarrow>
     autocommitTx s' = None
   \<and> calls w' = calls w @ [CConsume (at_conn tx) (res_stream (at_res tx)), CReturn (at_conn tx)]
   \<and> bookmarks s' =
       (let w1 = logged_unit (CConsume (at_conn tx) (res_stream (at_res tx)))
                   (e_Consume env (at_conn tx) (res_stream (at_res tx))) w
        in if conn_Bookmark env (at_conn tx) w1 \<noteq> '''' then [conn_Bookmark env (at_conn tx) w1]
           else bookmarks s)"
  by (auto simp: autocommitTransaction_done_def autocommitTransaction_onClosed_def Let_def
        pool_Return_def logged_unit_def retrieveBookmarks_def)

text \<open>
  Claim C10. With a pending auto-commit transaction and no explicit transaction, a
  configurer that sets a negative timeout other than the sentinel makes
  \<open>BeginTransaction\<close>, \<open>Run\<close>, \<open>ExecuteRead\<close> and \<open>ExecuteWrite\<close> return the
  \<open>UsageError\<close> only after the pending auto-commit transaction has been finished: its
  result is consumed, the bookmark of its connection is retrieved, the connection is
  returned to the pool and the session has no pending auto-commit transaction any more. So
  the session after the error differs from the session before.
\<close>

theorem negative_timeout_still_finishes_autocommit:
  assumes "explicitTx s = None" and "autocommitTx s = Some tx"
    and "Timeout (applyConfigurers cs defaultTransactionConfig) < 0"
    and "Timeout (applyConfigurers cs defaultTransactionConfig) \<noteq> MinInt"
    and "err = UsageError (''Negative transaction timeouts are not allowed. Given: ''
                  @ fmt_d (Timeout (applyConfigurers cs defaultTransactionConfig)))"
    and "autocommitTransaction_done env tx (s, w) = (s', w')"
  shows "BeginTransaction env ctx cs (s, w) = (Inl err, s', w')
       \<and> Run env ctx cypher params cs (s, w) = (Inl err, s', w')
       \<and> ExecuteRead env fuel ctx work cs (s, w) = Some ((None, Some err), s', w')
       \<and> ExecuteWrite env fuel ctx work cs (s, w) = Some ((None, Some err), s', w')
       \<and> autocommitTx s' = None \<and> s' \<noteq> s
       \<and> calls w' = calls w @ [CConsume (at_conn tx) (res_stream (at_res tx)), CReturn (at_conn tx)]
       \<and> bookmarks s' =
           (let w1 = logged_unit (CConsume (at_conn tx) (res_stream (at_res tx)))
                       (e_Consume env (at_conn tx) (res_stream (at_res tx))) w
            in if conn_Bookmark env (at_conn tx) w1 \<noteq> '''' then [conn_Bookmark env (at_conn tx) w1]
               else bookmarks s)"
proof -
  have f: "finishPendingAutocommit env (s, w) = (s', w')"
    using assms(2,6) by (simp add: finishPending_pending)
  have v: "validateTransactionConfig (applyConfigurers cs defaultTransactionConfig) = Some err"
    using assms(3,4,5) by (simp add: validateTransactionConfig_def)
  have 1: "BeginTransaction env ctx cs (s, w) = (Inl err, s', w')"
    using assms(1) f v by (simp add: BeginTransaction_def Let_def)
  have 2: "Run env ctx cypher params cs (s, w) = (Inl err, s', w')"
    using assms(1) f v by (simp add: Run_def Let_def)
  have 3: "runRetriable env fuel ctx mode work cs (s, w) = Some ((None, Some err), s', w')" for mode
    using assms(1) f v by (simp add: runRetriable_def Let_def)
  note d = done_effect [OF assms(6)]
  from d assms(2) have n: "s' \<noteq> s" by auto
  from 1 2 3 [of ReadMode] 3 [of WriteMode] d n show ?thesis
    unfolding ExecuteRead_def ExecuteWrite_def by (intro conjI) simp_all
qed

theorem negative_timeout_still_finishes_autocommit_witness:
  "explicitTx session1 = None \<and> autocommitTx session1 = Some autocommit0
   \<and> Timeout (applyConfigurers [withTimeout (- 5)] defaultTransactionConfig) = - 5
   \<and> autocommitTransaction_done env0 autocommit0 (session1, world1) = (session2, world4)
   \<and> BeginTransaction env0 ctx0 [withTimeout (- 5)] (session1, world1)
       = (Inl (UsageError ''Negative transaction timeouts are not allowed. Given: -5''), session2, world4)
   \<and> Run env0 ctx0 ''RETURN 2'' [] [withTimeout (- 5)] (session1, world1)
       = (Inl (UsageError ''Negative transaction timeouts are not allowed. Given: -5''), session2, world4)
   \<and> ExecuteRead env0 3 ctx0 work_ok [withTimeout (- 5)] (session1, world1)
       = Some ((None, Some (UsageError ''Negative transaction timeouts are not allowed. Given: -5'')),
               session2, world4)
   \<and> ExecuteWrite env0 3 ctx0 work_ok [withTimeout (- 5)] (session1, world1)
       = Some ((None, Some (UsageError ''Negative transaction timeouts are not allowed. Given: -5'')),
               session2, world4)
   \<and> autocommitTx session2 = None \<and> session2 \<noteq> session1
   \<and> bookmarks session1 = [''a'', ''b''] \<and> bookmarks session2 = [''bm'']
   \<and> calls world4 = calls world1 @ [CConsume 7 3, CReturn 7]"
proof -
  let ?cfg = "applyConfigurers [withTimeout (- 5)] defaultTransactionConfig"
  have a: "explicitTx session1 = None" "autocommitTx session1 = Some autocommit0" by code_simp+
  have t: "Timeout ?cfg = - 5" by code_simp
  then have t1: "Timeout ?cfg < 0" by simp
  have t2: "Timeout ?cfg \<noteq> MinInt" unfolding t by code_simp
  have m: "UsageError ''Negative transaction timeouts are not allowed. Given: -5''
      = UsageError (''Negative transaction timeouts are not allowed. Given: '' @ fmt_d (Timeout ?cfg))"
    unfolding t by code_simp
  have d: "autocommitTransaction_done env0 autocommit0 (session1, world1) = (session2, world4)"
    by code_simp
  have b: "bookmarks session1 = [''a'', ''b'']" "bookmarks session2 = [''bm'']" by code_simp+
  have c: "at_conn autocommit0 = 7" "res_stream (at_res autocommit0) = 3"
    by (simp_all add: autocommit0_def)
  from negative_timeout_still_finishes_autocommit [OF a t1 t2 m d, of ctx0 "''RETURN 2''" "[]" 3 work_ok]
    a t d b c
  show ?thesis by simp
qed

section \<open>The acquisition timeout\<close>

lemma borrowCalls_logged:
  "logged c f w = (r, w') \<Longrightarrow>
   borrowCalls w' = borrowCalls w @ (if isBorrowCall c then [c] else [])"
  by (auto simp: borrowCalls_def logged_def split: prod.splits)

lemma borrowCalls_logged_unit:
  "borrowCalls (logged_unit c f w) = borrowCalls w @ (if isBorrowCall c then [c] else [])"
  by (simp add: borrowCalls_def logged_unit_def)

lemma resolveHomeDatabase_borrowCalls:
  "resolveHomeDatabase env ctx (s, w) = (r, s', w') \<Longrightarrow>
   borrowCalls w' = borrowCalls w \<and> config s' = config s"
  by (auto simp: resolveHomeDatabase_def router_GetNameOfDefaultDatabase_def borrowCalls_def
        split: if_splits prod.splits sum.splits)

lemma getServers_borrowCalls:
  "getServers env ctx mode (s, w) = (r, w') \<Longrightarrow> borrowCalls w' = borrowCalls w"
  by (auto simp: getServers_def router_Readers_def router_Writers_def
        dest!: borrowCalls_logged split: if_splits)

lemma getConnection_borrowCalls:
  assumes "getConnection env ctx mode thr (s, w) = (r, s', w')"
    and "t = cfg_ConnectionAcquisitionTimeout (config s)"
    and "ctx' = (if t > 0 then WithTimeout (e_now env (ext w)) ctx t else ctx)"
  shows "(borrowCalls w' = borrowCalls w \<and> isl r)
       \<or> (\<exists>servers. borrowCalls w' = borrowCalls w @ [CBorrow ctx' servers (t \<noteq> 0) thr])"
proof -
  obtain r1 s1 w1 where h: "resolveHomeDatabase env ctx' (s, w) = (r1, s1, w1)"
    by (metis prod.collapse)
  note h1 = resolveHomeDatabase_borrowCalls [OF h]
  show ?thesis
  proof (cases r1)
    case (Some err)
    with assms h h1 show ?thesis
      by (auto simp: getConnection_def Let_def)
  next
    case None
    obtain r2 w2 where g: "getServers env ctx' mode (s1, w1) = (r2, w2)"
      by (metis prod.collapse)
    note g1 = getServers_borrowCalls [OF g]
    show ?thesis
    proof (cases r2)
      case (Inl err)
      with assms h h1 None g g1 show ?thesis
        by (auto simp: getConnection_def Let_def)
    next
      case (Inr servers)
      obtain r3 w3 where b: "pool_Borrow env ctx' servers (t \<noteq> 0) thr w2 = (r3, w3)"
        by (metis prod.collapse)
      then have b1: "borrowCalls w3 = borrowCalls w2 @ [CBorrow ctx' servers (t \<noteq> 0) thr]"
        by (auto simp: pool_Borrow_def dest!: borrowCalls_logged)
      have "borrowCalls w' = borrowCalls w3"
        using assms h h1 None g Inr b
        by (auto simp: getConnection_def Let_def pool_Return_def conn_SelectDatabase_def
              borrowCalls_logged_unit split: sum.splits if_splits)
      with b1 g1 h1 show ?thesis by auto
    qed
  qed
qed

text \<open>
  Claim C5, as the code has it. \<open>getConnection\<close> calls \<open>Borrow\<close> at most once, and
  once when it returns a connection. When \<open>ConnectionAcquisitionTimeout\<close> is 0 the
  context of the caller is passed on unchanged, so no deadline is imposed, but the pool is
  told not to wait (\<open>wait = false\<close>). When it is positive the pool is told to wait
  under a context whose deadline is that timeout from now, or the earlier deadline of the
  caller. When it is negative the context is unchanged and the pool is told to wait.
\<close>

theorem acquisition_timeout_governs_borrow:
  assumes "getConnection env ctx mode thr (s, w) = (r, s', w')"
    and "t = cfg_ConnectionAcquisitionTimeout (config s)"
  shows "\<exists>bs. borrowCalls w' = borrowCalls w @ bs \<and> length bs \<le> 1 \<and> (\<not> isl r \<longrightarrow> length bs = 1)
           \<and> (\<forall>ctx' servers wait thr'. CBorrow ctx' servers wait thr' \<in> set bs \<longrightarrow>
                 thr' = thr
                 \<and> (t = 0 \<longrightarrow> \<not> wait \<and> ctx' = ctx)
                 \<and> (t < 0 \<longrightarrow> wait \<and> ctx' = ctx)
                 \<and> (t > 0 \<longrightarrow> wait \<and> deadline ctx' =
                       Some (case deadline ctx of
                               None \<Rightarrow> e_now env (ext w) + t
                             | Some p \<Rightarrow> min p (e_now env (ext w) + t))))"
proof -
  define ctx1 where "ctx1 = (if t > 0 then WithTimeout (e_now env (ext w)) ctx t else ctx)"
  have d: "deadline ctx1 = Some (case deadline ctx of
                               None \<Rightarrow> e_now env (ext w) + t
                             | Some p \<Rightarrow> min p (e_now env (ext w) + t))" if "t > 0"
    using that by (simp add: ctx1_def WithTimeout_def split: option.splits)
  have e: "ctx1 = ctx" if "\<not> t > 0"
    using that by (simp add: ctx1_def)
  from getConnection_borrowCalls [OF assms ctx1_def]
  consider "borrowCalls w' = borrowCalls w" "isl r"
    | servers where "borrowCalls w' = borrowCalls w @ [CBorrow ctx1 servers (t \<noteq> 0) thr]"
    by blast
  then show ?thesis
  proof cases
    case 1
    then show ?thesis by (intro exI [of _ "[]"]) simp
  next
    case 2
    then show ?thesis
      using d e by (intro exI [of _ "[CBorrow ctx1 servers (t \<noteq> 0) thr]"]) auto
  qed
qed

theorem acquisition_timeout_governs_borrow_witness:
  "cfg_ConnectionAcquisitionTimeout (config session0) = 60 * second
   \<and> borrowCalls (snd (snd (getConnection env0 ctx0 WriteMode 5 (session0, world0))))
       = [CBorrow \<lparr>deadline = Some (60 * second)\<rparr> [''writer''] True 5]
   \<and> (\<exists>bs. borrowCalls (snd (snd (getConnection env0 ctx0 WriteMode 5 (session0, world0))))
             = borrowCalls world0 @ bs \<and> length bs = 1
        \<and> (\<forall>ctx' servers wait thr'. CBorrow ctx' servers wait thr' \<in> set bs \<longrightarrow>
               thr' = 5 \<and> wait \<and> deadline ctx' = Some (60 * second)))
   \<and> cfg_ConnectionAcquisitionTimeout (config session_no_timeout) = 0
   \<and> (\<exists>bs. borrowCalls (snd (snd (getConnection env0 ctx0 WriteMode 5 (session_no_timeout, world0))))
             = borrowCalls world0 @ bs \<and> length bs = 1
        \<and> (\<forall>ctx' servers wait thr'. CBorrow ctx' servers wait thr' \<in> set bs \<longrightarrow>
               thr' = 5 \<and> \<not> wait \<and> ctx' = ctx0))"
proof -
  let ?G = "getConnection env0 ctx0 WriteMode 5 (session0, world0)"
  let ?H = "getConnection env0 ctx0 WriteMode 5 (session_no_timeout, world0)"
  have g: "?G = (fst ?G, fst (snd ?G), snd (snd ?G))"
    and h: "?H = (fst ?H, fst (snd ?H), snd (snd ?H))" by simp_all
  have t: "cfg_ConnectionAcquisitionTimeout (config session0) = 60 * second"
    "cfg_ConnectionAcquisitionTimeout (config session_no_timeout) = 0" by code_simp+
  have ok: "\<not> isl (fst ?G)" "\<not> isl (fst ?H)" by code_simp+
  have n: "e_now env0 (ext world0) = 0" "deadline ctx0 = None" "60 * second > 0"
    by code_simp+
  have b: "borrowCalls (snd (snd ?G)) = [CBorrow \<lparr>deadline = Some (60 * second)\<rparr> [''writer''] True 5]"
    by code_simp
  from acquisition_timeout_governs_borrow [OF g t(1) [symmetric]] ok(1) n
  have 1: "\<exists>bs. borrowCalls (snd (snd ?G)) = borrowCalls world0 @ bs \<and> length bs = 1
        \<and> (\<forall>ctx' servers wait thr'. CBorrow ctx' servers wait thr' \<in> set bs \<longrightarrow>
               thr' = 5 \<and> wait \<and> deadline ctx' = Some (60 * second))"
    by auto
  from acquisition_timeout_governs_borrow [OF h t(2) [symmetric]] ok(2)
  have 2: "\<exists>bs. borrowCalls (snd (snd ?H)) = borrowCalls world0 @ bs \<and> length bs = 1
        \<and> (\<forall>ctx' servers wait thr'. CBorrow ctx' servers wait thr' \<in> set bs \<longrightarrow>
               thr' = 5 \<and> \<not> wait \<and> ctx' = ctx0)"
    by auto
  from t b 1 2 show ?thesis by simp
qed

text \<open>
  Claim C5 as stated fails: with \<open>ConnectionAcquisitionTimeout = 0\<close> the connection is
  borrowed with \<open>wait = false\<close>, so the borrow does not wait until a connection is
  available.
\<close>

theorem zero_acquisition_timeout_does_not_wait:
  "cfg_ConnectionAcquisitionTimeout (config session_no_timeout) = 0
   \<and> fst (getConnection env0 ctx0 WriteMode 5 (session_no_timeout, world0)) = Inr 7
   \<and> borrowCalls (snd (snd (getConnection env0 ctx0 WriteMode 5 (session_no_timeout, world0))))
       = [CBorrow \<lparr>deadline = None\<rparr> [''writer''] False 5]"
  by code_simp

section \<open>The retry loop of managed transactions\<close>

lemma failures_logged_unit [simp]:
  "failureOf c = None \<Longrightarrow> failures (logged_unit c f w) = failures w"
  by (simp add: failures_def logged_unit_def List.map_filter_def)

lemma sleeps_logged_unit [simp]:
  "\<not> isSleepCall c \<Longrightarrow> sleeps (logged_unit c f w) = sleeps w"
  by (simp add: sleeps_def logged_unit_def)


lemma retry_log_ext [simp]:
  "failures (w\<lparr>ext := x\<rparr>) = failures w" "sleeps (w\<lparr>ext := x\<rparr>) = sleeps w"
  by (simp_all add: failures_def sleeps_def)

lemma retry_log_pool_Return [simp]:
  "failures (pool_Return env c w) = failures w" "sleeps (pool_Return env c w) = sleeps w"
  by (simp_all add: pool_Return_def)

lemma retry_log_SelectDatabase [simp]:
  "failures (conn_SelectDatabase env c db w) = failures w"
  "sleeps (conn_SelectDatabase env c db w) = sleeps w"
  by (simp_all add: conn_SelectDatabase_def)



























section \<open>What LastBookmarks returns\<close>














end
